theory Spec2Isabelle
  imports Complex_Main
begin

section \<open>JavaScript values\<close>

text \<open>
  The presence client of \<^verbatim>\<open>lanyard-integration.js\<close> works on values decoded from JSON:
  the body of the HTTP response, the text of a WebSocket message, and one object literal
  built by the fallback. A value is \<open>undefined\<close>, \<open>null\<close>, a boolean, a number, a string,
  an array or a plain object. An object is the list of its own properties, with distinct
  keys. Numbers are the finite values a message can carry; the program compares them with
  \<open>0\<close>, \<open>1\<close> and \<open>4\<close>, tests them for truthiness and converts them to strings.
\<close>

datatype jsval =
    JUndefined
  | JNull
  | JBool bool
  | JNum rat
  | JStr string
  | JArr "jsval list"
  | JObj "(string \<times> jsval) list"

datatype error = TypeError | SyntaxError | AbortError | SecurityError

text \<open>Conversion to boolean, as \<open>!x\<close>, \<open>x || y\<close>, \<open>x && y\<close> and \<open>x ? y : z\<close> apply it.\<close>

fun truthy :: "jsval \<Rightarrow> bool" where
  "truthy JUndefined = False"
| "truthy JNull = False"
| "truthy (JBool b) = b"
| "truthy (JNum q) = (q \<noteq> 0)"
| "truthy (JStr s) = (s \<noteq> [])"
| "truthy (JArr xs) = True"
| "truthy (JObj ps) = True"

fun nullish :: "jsval \<Rightarrow> bool" where
  "nullish JUndefined = True"
| "nullish JNull = True"
| "nullish v = False"

text \<open>
  Reading a property \<open>v.k\<close>. On \<open>undefined\<close> and \<open>null\<close> the read throws a TypeError. On
  an object it gives the own property, and \<open>undefined\<close> when there is none; on a boolean,
  a number, a string or an array it gives \<open>undefined\<close>. This is right for the names the
  program reads (\<open>op\<close>, \<open>t\<close>, \<open>d\<close>, \<open>success\<close>, \<open>data\<close>, \<open>discord_status\<close>, \<open>activities\<close>,
  \<open>type\<close>, \<open>name\<close>, \<open>details\<close>, \<open>state\<close>, \<open>emoji\<close>): no prototype defines one of them.
  \<open>field\<close> is the read on a receiver already known not to be \<open>undefined\<close> or \<open>null\<close>.
\<close>

fun field :: "jsval \<Rightarrow> string \<Rightarrow> jsval" where
  "field (JObj ps) k = (case map_of ps k of None \<Rightarrow> JUndefined | Some v \<Rightarrow> v)"
| "field v k = JUndefined"

definition get :: "jsval \<Rightarrow> string \<Rightarrow> error + jsval" where
  "get v k = (if nullish v then Inl TypeError else Inr (field v k))"

text \<open>
  Conversion to string, which a computed property access \<open>o[v]\<close> and the
  interpolation \<open>${v}\<close> of a template literal apply to \<open>v\<close>. The
  digits printed for a number are the runtime's: the printer is the parameter \<open>nts\<close>.
  An array joins its elements with commas, \<open>undefined\<close> and \<open>null\<close> giving the empty
  string. A plain object prints through \<open>Object.prototype.toString\<close>, unless it has an
  own property \<open>toString\<close>, which a decoded value cannot call: then the conversion throws.
\<close>

fun ToString :: "(rat \<Rightarrow> string) \<Rightarrow> jsval \<Rightarrow> error + string"
  and join :: "(rat \<Rightarrow> string) \<Rightarrow> jsval list \<Rightarrow> error + string" where
  "ToString nts JUndefined = Inr ''undefined''"
| "ToString nts JNull = Inr ''null''"
| "ToString nts (JBool b) = Inr (if b then ''true'' else ''false'')"
| "ToString nts (JNum q) = Inr (nts q)"
| "ToString nts (JStr s) = Inr s"
| "ToString nts (JArr xs) = join nts xs"
| "ToString nts (JObj ps) =
     (if ''toString'' \<in> fst ` set ps then Inl TypeError else Inr ''[object Object]'')"
| "join nts [] = Inr ''''"
| "join nts (x # xs) =
     (case (if nullish x then Inr '''' else ToString nts x) of
        Inl e \<Rightarrow> Inl e
      | Inr s \<Rightarrow>
          (if xs = [] then Inr s
           else (case join nts xs of Inl e \<Rightarrow> Inl e | Inr t \<Rightarrow> Inr (s @ '','' @ t))))"

text \<open>
  The conversion throws only on an object with an own property \<open>toString\<close>, met
  directly or as an element of an array. A value is \<open>plain\<close> when no object inside it has
  such a property; every property of a plain value is plain. \<open>string_of\<close> is the string
  a value converts to.
\<close>

fun plain :: "jsval \<Rightarrow> bool" where
  "plain (JArr xs) = (\<forall>x \<in> set xs. plain x)"
| "plain (JObj ps) = (''toString'' \<notin> fst ` set ps \<and> (\<forall>p \<in> set ps. plain (snd p)))"
| "plain v = True"

definition string_of :: "(rat \<Rightarrow> string) \<Rightarrow> jsval \<Rightarrow> string" where
  "string_of nts v = (case ToString nts v of Inr s \<Rightarrow> s | Inl e \<Rightarrow> [])"

text \<open>
  \<open>Array.prototype.find\<close>: the first element on which the callback gives true, \<open>undefined\<close>
  when there is none. The callback runs on the elements in order and stops at the first
  hit; an exception of the callback leaves \<open>find\<close>.
\<close>

fun find_js :: "(jsval \<Rightarrow> error + bool) \<Rightarrow> jsval list \<Rightarrow> error + jsval" where
  "find_js p [] = Inr JUndefined"
| "find_js p (x # xs) =
     (case p x of
        Inl e \<Rightarrow> Inl e
      | Inr b \<Rightarrow> (if b then Inr x else find_js p xs))"

section \<open>The page\<close>

text \<open>
  The renderer consumes four elements: \<open>.status-dot\<close>, \<open>.status-text\<close>,
  \<open>.discord-activity\<close> and \<open>.profile-info\<close>. An element is present or not
  (\<open>querySelector\<close> gives \<open>null\<close>). Of a present element the model keeps the properties
  the program assigns, each holding the value last assigned. The markup assigned to
  \<open>innerHTML\<close> is one of three templates; the model keeps the template and the strings
  interpolated into it: name and details of a game, details and state of what is listened
  to, the name of the emoji and the state of a custom status. An optional part is the
  part of the template under a condition.
\<close>

datatype markup =
    Static string
  | Playing string "string option"
  | Listening_to "(string \<times> string) option"
  | Status "string option" string

record status_dot =
  background :: jsval
  boxShadow :: jsval

record status_text =
  textContent :: jsval
  color :: jsval

record activity_element =
  innerHTML :: markup
  display :: string

record dom =
  statusDot :: "status_dot option"
  statusText :: "status_text option"
  discord_activity :: "activity_element option"
  profile_info :: bool

section \<open>The state of the client\<close>

text \<open>
  One constructor of \<open>log_entry\<close> for each \<open>console.log\<close> of the class, in source order.
\<close>

datatype log_entry =
    Api_unavailable
  | Request_timed_out
  | Status_fetch_error error
  | Ws_connected
  | Ws_message jsval
  | Ws_closed
  | Ws_error
  | Reconnect_attempt nat nat
  | Max_attempts_reached
  | Updating_status jsval
  | Elements_not_found
  | Discord_status jsval jsval
  | Fallback_mode
  | Fallback_status string

text \<open>
  The fields of a \<open>LanyardIntegration\<close> instance (\<open>userId\<close>, \<open>websocket\<close>,
  \<open>reconnectAttempts\<close>, \<open>maxReconnectAttempts\<close>) and what the instance acts on:
  the page, the console, the messages sent over the socket, the delays of the
  \<open>setTimeout\<close> calls that schedule \<open>connectWebSocket\<close> (in call order, \<open>fired\<close> of them
  having run), the periods of the \<open>setInterval\<close> calls, the number of sockets constructed,
  and the exceptions that left an event handler. \<open>this.websocket\<close> is \<open>null\<close> or the
  socket constructed last, named by its number. \<open>ws_available\<close> tells whether
  \<open>new WebSocket(url)\<close> returns a socket on this page or throws.
\<close>

record world =
  userId :: string
  websocket :: "nat option"
  reconnectAttempts :: nat
  maxReconnectAttempts :: nat
  page :: dom
  console :: "log_entry list"
  sent :: "jsval list"
  timeouts :: "nat list"
  fired :: nat
  intervals :: "nat list"
  sockets :: nat
  ws_available :: bool
  uncaught :: "error list"

definition log :: "log_entry \<Rightarrow> world \<Rightarrow> world" where
  "log l w = w\<lparr>console := console w @ [l]\<rparr>"

definition send :: "jsval \<Rightarrow> world \<Rightarrow> world" where
  "send m w = w\<lparr>sent := sent w @ [m]\<rparr>"

section \<open>The renderer\<close>

subsection \<open>The status table\<close>

text \<open>
  \<open>statusConfig\<close> maps a status code to colour, label and shadow. It is an object
  literal, so \<open>statusConfig[status]\<close> finds an own property first and a property of
  \<open>Object.prototype\<close> otherwise; \<open>Object_prototype_names\<close> are the names defined there
  by the language standard and its annex B. An inherited member is a function, or for
  \<open>__proto__\<close> the prototype itself: a true value without \<open>color\<close>, \<open>text\<close> or \<open>shadow\<close>.
\<close>

record config =
  config_color :: string
  config_text :: string
  config_shadow :: string

definition statusConfig :: "(string \<times> config) list" where
  "statusConfig =
     [(''online'',
         \<lparr>config_color = ''#555'', config_text = ''Online'', config_shadow = ''0 0 5px #555''\<rparr>),
      (''idle'',
         \<lparr>config_color = ''#666'', config_text = ''Away'', config_shadow = ''0 0 5px #666''\<rparr>),
      (''dnd'',
         \<lparr>config_color = ''#777'', config_text = ''Busy'', config_shadow = ''0 0 5px #777''\<rparr>),
      (''offline'',
         \<lparr>config_color = ''#333'', config_text = ''Offline'', config_shadow = ''0 0 5px #333''\<rparr>)]"

definition Object_prototype_names :: "string list" where
  "Object_prototype_names =
     [''constructor'', ''hasOwnProperty'', ''isPrototypeOf'', ''propertyIsEnumerable'',
      ''toLocaleString'', ''toString'', ''valueOf'', ''__proto__'',
      ''__defineGetter__'', ''__defineSetter__'', ''__lookupGetter__'', ''__lookupSetter__'']"

datatype member = Own config | Inherited | Absent

definition statusConfig_at :: "string \<Rightarrow> member" where
  "statusConfig_at k =
     (case map_of statusConfig k of
        Some c \<Rightarrow> Own c
      | None \<Rightarrow> (if k \<in> set Object_prototype_names then Inherited else Absent))"

text \<open>\<open>statusConfig[status] || statusConfig.offline\<close>: only an absent member is false.\<close>

definition config_for :: "string \<Rightarrow> member" where
  "config_for k = (case statusConfig_at k of Absent \<Rightarrow> statusConfig_at ''offline'' | m \<Rightarrow> m)"

fun member_field :: "(config \<Rightarrow> string) \<Rightarrow> member \<Rightarrow> jsval" where
  "member_field f (Own c) = JStr (f c)"
| "member_field f m = JUndefined"

subsection \<open>The activity line\<close>

text \<open>
  The three callbacks given to \<open>find\<close> in \<open>updateActivity\<close>. Each reads a property of the
  element first, which throws on \<open>undefined\<close> and \<open>null\<close>.
\<close>

definition gameActivity_test :: "jsval \<Rightarrow> bool" where
  "gameActivity_test activity \<longleftrightarrow>
     field activity ''type'' = JNum 0 \<and>
     field activity ''name'' \<noteq> JStr ''Spotify'' \<and>
     field activity ''name'' \<noteq> JStr ''Custom Status''"

definition customStatus_test :: "jsval \<Rightarrow> bool" where
  "customStatus_test activity \<longleftrightarrow> field activity ''type'' = JNum 4"

definition spotifyActivity_test :: "jsval \<Rightarrow> bool" where
  "spotifyActivity_test activity \<longleftrightarrow> field activity ''name'' = JStr ''Spotify''"

definition callback :: "(jsval \<Rightarrow> bool) \<Rightarrow> jsval \<Rightarrow> error + bool" where
  "callback test activity = (if nullish activity then Inl TypeError else Inr (test activity))"

text \<open>
  \<open>activities.find(f)\<close> on any value: only an array has \<open>find\<close>; on \<open>undefined\<close> and \<open>null\<close>
  the read of \<open>find\<close> throws, on every other value the call of \<open>undefined\<close> throws.
\<close>

fun activities_find :: "(jsval \<Rightarrow> bool) \<Rightarrow> jsval \<Rightarrow> error + jsval" where
  "activities_find test (JArr xs) = find_js (callback test) xs"
| "activities_find test v = Inl TypeError"

text \<open>The element \<open>document.createElement('div')\<close> gives, before anything is assigned.\<close>

definition created_element :: activity_element where
  "created_element = \<lparr>innerHTML = Static '''', display = ''''\<rparr>"

text \<open>
  The first statement of \<open>updateActivity\<close>: the \<open>.discord-activity\<close> element of the page,
  or a new one appended to \<open>.profile-info\<close>. Without \<open>.profile-info\<close> the call of
  \<open>appendChild\<close> on \<open>null\<close> throws.
\<close>

definition activityElement :: "world \<Rightarrow> error + activity_element \<times> world" where
  "activityElement w =
     (case discord_activity (page w) of
        Some el \<Rightarrow> Inr (el, w)
      | None \<Rightarrow>
          (if profile_info (page w)
           then Inr (created_element,
                     w\<lparr>page := (page w)\<lparr>discord_activity := Some created_element\<rparr>\<rparr>)
           else Inl TypeError))"

definition set_activity :: "activity_element \<Rightarrow> world \<Rightarrow> world" where
  "set_activity el w = w\<lparr>page := (page w)\<lparr>discord_activity := Some el\<rparr>\<rparr>"

text \<open>
  The three template literals. Interpolation converts each value to a string, from left
  to right, and an exception of a conversion leaves the template before \<open>innerHTML\<close> is
  assigned. \<open>customStatus.emoji.name + ' '\<close> converts the name in the same way.
\<close>

definition playing_markup :: "(rat \<Rightarrow> string) \<Rightarrow> jsval \<Rightarrow> error + markup" where
  "playing_markup nts gameActivity =
     (case ToString nts (field gameActivity ''name'') of
        Inl e \<Rightarrow> Inl e
      | Inr name \<Rightarrow>
          (if truthy (field gameActivity ''details'') then
             (case ToString nts (field gameActivity ''details'') of
                Inl e \<Rightarrow> Inl e
              | Inr details \<Rightarrow> Inr (Playing name (Some details)))
           else Inr (Playing name None)))"

definition listening_markup :: "(rat \<Rightarrow> string) \<Rightarrow> jsval \<Rightarrow> error + markup" where
  "listening_markup nts spotifyActivity =
     (if truthy (field spotifyActivity ''details'') then
        (case ToString nts (field spotifyActivity ''details'') of
           Inl e \<Rightarrow> Inl e
         | Inr details \<Rightarrow>
             (case ToString nts (field spotifyActivity ''state'') of
                Inl e \<Rightarrow> Inl e
              | Inr state \<Rightarrow> Inr (Listening_to (Some (details, state)))))
      else Inr (Listening_to None))"

definition status_markup :: "(rat \<Rightarrow> string) \<Rightarrow> jsval \<Rightarrow> error + markup" where
  "status_markup nts customStatus =
     (case (if truthy (field customStatus ''emoji'')
            then (case ToString nts (field (field customStatus ''emoji'') ''name'') of
                    Inl e \<Rightarrow> Inl e
                  | Inr name \<Rightarrow> Inr (Some name))
            else Inr None) of
        Inl e \<Rightarrow> Inl e
      | Inr emoji \<Rightarrow>
          (case ToString nts (field customStatus ''state'') of
             Inl e \<Rightarrow> Inl e
           | Inr state \<Rightarrow> Inr (Status emoji state)))"

text \<open>\<open>activityElement.innerHTML = ...; activityElement.style.display = 'block'\<close>.\<close>

definition show_activity ::
  "error + markup \<Rightarrow> activity_element \<Rightarrow> world \<Rightarrow> error option \<times> world" where
  "show_activity template el w =
     (case template of
        Inl e \<Rightarrow> (Some e, w)
      | Inr m \<Rightarrow> (None, set_activity (el\<lparr>innerHTML := m, display := ''block''\<rparr>) w))"

definition updateActivity ::
  "(rat \<Rightarrow> string) \<Rightarrow> jsval \<Rightarrow> jsval \<Rightarrow> world \<Rightarrow> error option \<times> world" where
  "updateActivity nts activities status w =
     (case activityElement w of
        Inl e \<Rightarrow> (Some e, w)
      | Inr (el, w1) \<Rightarrow>
     (case activities_find gameActivity_test activities of
        Inl e \<Rightarrow> (Some e, w1)
      | Inr gameActivity \<Rightarrow>
     (case activities_find customStatus_test activities of
        Inl e \<Rightarrow> (Some e, w1)
      | Inr customStatus \<Rightarrow>
     (case activities_find spotifyActivity_test activities of
        Inl e \<Rightarrow> (Some e, w1)
      | Inr spotifyActivity \<Rightarrow>
          (if truthy gameActivity \<and> status \<noteq> JStr ''offline'' then
             show_activity (playing_markup nts gameActivity) el w1
           else if truthy spotifyActivity \<and> status \<noteq> JStr ''offline'' then
             show_activity (listening_markup nts spotifyActivity) el w1
           else if truthy customStatus \<and> truthy (field customStatus ''state'')
                   \<and> status \<noteq> JStr ''offline'' then
             show_activity (status_markup nts customStatus) el w1
           else (None, set_activity (el\<lparr>display := ''none''\<rparr>) w1))))))"

subsection \<open>The status indicator\<close>

text \<open>\<open>userData.activities || []\<close>, read after \<open>userData.discord_status\<close> has been.\<close>

definition activities_of :: "jsval \<Rightarrow> jsval" where
  "activities_of userData =
     (if truthy (field userData ''activities'') then field userData ''activities'' else JArr [])"

definition updateStatus ::
  "(rat \<Rightarrow> string) \<Rightarrow> jsval \<Rightarrow> world \<Rightarrow> error option \<times> world" where
  "updateStatus nts userData w0 =
     (let w = log (Updating_status userData) w0 in
      case (statusDot (page w), statusText (page w)) of
        (Some dot, Some txt) \<Rightarrow>
          (case get userData ''discord_status'' of
             Inl e \<Rightarrow> (Some e, w)
           | Inr status \<Rightarrow>
               (let activities = activities_of userData;
                    w1 = log (Discord_status status activities) w
                in case ToString nts status of
                     Inl e \<Rightarrow> (Some e, w1)
                   | Inr key \<Rightarrow>
                       (let cfg = config_for key;
                            dot' = dot\<lparr>background := member_field config_color cfg,
                                      boxShadow := member_field config_shadow cfg\<rparr>;
                            txt' = txt\<lparr>textContent := member_field config_text cfg,
                                      color := member_field config_color cfg\<rparr>;
                            w2 = w1\<lparr>page := (page w1)\<lparr>statusDot := Some dot',
                                                        statusText := Some txt'\<rparr>\<rparr>
                        in updateActivity nts activities status w2)))
      | _ \<Rightarrow> (None, log Elements_not_found w))"

section \<open>The connection manager\<close>

subsection \<open>Fallback\<close>

text \<open>
  What \<open>updateFallbackStatus\<close> reads from its surroundings on each call:
  \<open>new Date().getHours()\<close> and one draw of \<open>Math.random()\<close>. The thresholds are the
  doubles the literals \<open>0.4\<close> and \<open>0.8\<close> denote, written as the fractions they are.
\<close>

record ambient =
  hour :: nat
  random :: rat

definition fallback_status :: "ambient \<Rightarrow> string" where
  "fallback_status a =
     (if 9 \<le> hour a \<and> hour a \<le> 23
      then (if random a > 3602879701896397 / 9007199254740992 then ''online'' else ''idle'')
      else (if random a > 3602879701896397 / 4503599627370496 then ''dnd'' else ''offline''))"

text \<open>The object literal \<open>{ discord_status: status, activities: [] }\<close>.\<close>

definition synthetic_snapshot :: "string \<Rightarrow> jsval" where
  "synthetic_snapshot status = JObj [(''discord_status'', JStr status), (''activities'', JArr [])]"

definition updateFallbackStatus ::
  "(rat \<Rightarrow> string) \<Rightarrow> ambient \<Rightarrow> world \<Rightarrow> error option \<times> world" where
  "updateFallbackStatus nts a w =
     (let status = fallback_status a
      in updateStatus nts (synthetic_snapshot status) (log (Fallback_status status) w))"

text \<open>
  \<open>useFallback\<close> runs \<open>updateFallbackStatus\<close> once and then registers it with
  \<open>setInterval\<close>; an exception of the first run leaves \<open>useFallback\<close> before the
  registration.
\<close>

definition useFallback ::
  "(rat \<Rightarrow> string) \<Rightarrow> ambient \<Rightarrow> world \<Rightarrow> error option \<times> world" where
  "useFallback nts a w =
     (case updateFallbackStatus nts a (log Fallback_mode w) of
        (Some e, w1) \<Rightarrow> (Some e, w1)
      | (None, w1) \<Rightarrow> (None, w1\<lparr>intervals := intervals w1 @ [60000]\<rparr>))"

subsection \<open>The socket and its handlers\<close>

definition connectWebSocket :: "world \<Rightarrow> error option \<times> world" where
  "connectWebSocket w =
     (if ws_available w
      then (None, w\<lparr>websocket := Some (sockets w), sockets := Suc (sockets w)\<rparr>)
      else (Some SecurityError, w))"

definition onopen :: "world \<Rightarrow> world" where
  "onopen w =
     send (JObj [(''op'', JNum 2), (''d'', JObj [(''subscribe_to_id'', JStr (userId w))])])
       ((log Ws_connected w)\<lparr>reconnectAttempts := 0\<rparr>)"

text \<open>
  The text of a message or of a response body, as \<open>JSON.parse\<close> sees it: text that is
  not JSON, on which the parser throws a SyntaxError, or the value it decodes to.
\<close>

datatype payload = Unparsable | Parsed jsval

definition onmessage ::
  "(rat \<Rightarrow> string) \<Rightarrow> payload \<Rightarrow> world \<Rightarrow> error option \<times> world" where
  "onmessage nts event_data w =
     (case event_data of
        Unparsable \<Rightarrow> (Some SyntaxError, w)
      | Parsed data \<Rightarrow>
          (let w1 = log (Ws_message data) w
           in case get data ''op'' of
                Inl e \<Rightarrow> (Some e, w1)
              | Inr op \<Rightarrow>
                  (if op = JNum 1 then (None, send (JObj [(''op'', JNum 3)]) w1)
                   else if field data ''t'' = JStr ''INIT_STATE''
                           \<or> field data ''t'' = JStr ''PRESENCE_UPDATE''
                   then updateStatus nts (field data ''d'') w1
                   else (None, w1))))"

definition reconnect_delay :: "nat \<Rightarrow> nat" where
  "reconnect_delay attempts = 3000 * attempts"

definition attemptReconnect ::
  "(rat \<Rightarrow> string) \<Rightarrow> ambient \<Rightarrow> world \<Rightarrow> error option \<times> world" where
  "attemptReconnect nts a w =
     (if reconnectAttempts w < maxReconnectAttempts w then
        (let w1 = w\<lparr>reconnectAttempts := Suc (reconnectAttempts w)\<rparr>;
             w2 = log (Reconnect_attempt (reconnectAttempts w1) (maxReconnectAttempts w1)) w1
         in (None, w2\<lparr>timeouts := timeouts w2 @ [reconnect_delay (reconnectAttempts w2)]\<rparr>))
      else useFallback nts a (log Max_attempts_reached w))"

definition onclose ::
  "(rat \<Rightarrow> string) \<Rightarrow> ambient \<Rightarrow> bool \<Rightarrow> world \<Rightarrow> error option \<times> world" where
  "onclose nts a wasClean w =
     (let w1 = log Ws_closed w
      in if \<not> wasClean then attemptReconnect nts a w1 else (None, w1))"

definition onerror :: "world \<Rightarrow> world" where
  "onerror w = log Ws_error w"

subsection \<open>Start\<close>

text \<open>
  \<open>init\<close> and \<open>fetchInitialStatus\<close> are asynchronous: each waits at its \<open>await\<close> and
  goes on when the awaited promise settles. A promise that never settles leaves the
  function suspended for good, with the client as it was at the \<open>await\<close>.
\<close>

datatype 'a settled = Pending | Settled 'a

text \<open>
  What the request of \<open>fetchInitialStatus\<close> meets. The abort timer is set before
  \<open>fetch\<close> is called and cleared as soon as \<open>fetch\<close> has settled, so the first \<open>await\<close>
  always ends: \<open>fetch\<close> rejects (a TypeError), the controller aborts it after 5000 ms (an
  AbortError), or the response arrives, with its \<open>ok\<close> flag. The body is read only
  afterwards, by \<open>response.json()\<close> at the second \<open>await\<close>, when the timer is no longer
  set: the read completes, with text that is JSON or not, or it never does.
\<close>

datatype body = Never_completes | Completes payload

datatype fetch_outcome = Network_failure | Timed_out | Response bool body

text \<open>
  The \<open>try\<close> block of \<open>fetchInitialStatus\<close>: it returns true, falls through to the
  \<open>return false\<close> after the \<open>catch\<close>, or throws; or it stays at the read of the body.
\<close>

definition fetchInitialStatus_try ::
  "(rat \<Rightarrow> string) \<Rightarrow> fetch_outcome \<Rightarrow> world \<Rightarrow> (error + bool) settled \<times> world" where
  "fetchInitialStatus_try nts outcome w =
     (case outcome of
        Network_failure \<Rightarrow> (Settled (Inl TypeError), w)
      | Timed_out \<Rightarrow> (Settled (Inl AbortError), w)
      | Response ok body \<Rightarrow>
          (if ok then
             (case body of
                Never_completes \<Rightarrow> (Pending, w)
              | Completes Unparsable \<Rightarrow> (Settled (Inl SyntaxError), w)
              | Completes (Parsed data) \<Rightarrow>
                  (case get data ''success'' of
                     Inl e \<Rightarrow> (Settled (Inl e), w)
                   | Inr success \<Rightarrow>
                       (if truthy success then
                          (case updateStatus nts (field data ''data'') w of
                             (Some e, w1) \<Rightarrow> (Settled (Inl e), w1)
                           | (None, w1) \<Rightarrow> (Settled (Inr True), w1))
                        else (Settled (Inr False), w))))
           else (Settled (Inr False), w)))"

definition fetchInitialStatus ::
  "(rat \<Rightarrow> string) \<Rightarrow> fetch_outcome \<Rightarrow> world \<Rightarrow> bool settled \<times> world" where
  "fetchInitialStatus nts outcome w =
     (case fetchInitialStatus_try nts outcome w of
        (Pending, w1) \<Rightarrow> (Pending, w1)
      | (Settled (Inr r), w1) \<Rightarrow> (Settled r, w1)
      | (Settled (Inl e), w1) \<Rightarrow>
          (Settled False,
           log (if e = AbortError then Request_timed_out else Status_fetch_error e) w1))"

definition init ::
  "(rat \<Rightarrow> string) \<Rightarrow> ambient \<Rightarrow> fetch_outcome \<Rightarrow> world \<Rightarrow>
     error option settled \<times> world" where
  "init nts a outcome w =
     (case fetchInitialStatus nts outcome w of
        (Pending, w1) \<Rightarrow> (Pending, w1)
      | (Settled r, w1) \<Rightarrow>
          (case connectWebSocket w1 of
             (None, w2) \<Rightarrow> (Settled None, w2)
           | (Some e, w2) \<Rightarrow>
               (case useFallback nts a (log Api_unavailable w2) of
                  (r', w3) \<Rightarrow> (Settled r', w3))))"

text \<open>The fields the constructor sets, on a given page.\<close>

definition new_LanyardIntegration :: "string \<Rightarrow> dom \<Rightarrow> bool \<Rightarrow> world" where
  "new_LanyardIntegration uid pg avail =
     \<lparr>userId = uid, websocket = None, reconnectAttempts = 0, maxReconnectAttempts = 5,
      page = pg, console = [], sent = [], timeouts = [], fired = 0, intervals = [],
      sockets = 0, ws_available = avail, uncaught = []\<rparr>"

subsection \<open>Runs\<close>

text \<open>
  After \<open>init\<close> the client acts only in its handlers, one event at a time: the socket
  opens, delivers a message, closes (cleanly or not) or reports an error; a scheduled
  reconnection comes due; the fallback interval ticks. Socket events need a socket, a
  due reconnection one scheduled and not yet run, a tick a registered interval. An
  exception that leaves a handler is reported by the runtime and the run goes on.
\<close>

datatype event =
    Opened
  | Message payload
  | Closed bool ambient
  | Errored
  | Timer_fired
  | Interval_tick ambient

definition report :: "error option \<times> world \<Rightarrow> world" where
  "report r = (case r of (None, w) \<Rightarrow> w | (Some e, w) \<Rightarrow> w\<lparr>uncaught := uncaught w @ [e]\<rparr>)"

fun step :: "(rat \<Rightarrow> string) \<Rightarrow> event \<Rightarrow> world \<Rightarrow> world" where
  "step nts Opened w = (if websocket w = None then w else onopen w)"
| "step nts (Message m) w = (if websocket w = None then w else report (onmessage nts m w))"
| "step nts (Closed wasClean a) w =
     (if websocket w = None then w else report (onclose nts a wasClean w))"
| "step nts Errored w = (if websocket w = None then w else onerror w)"
| "step nts Timer_fired w =
     (if fired w < length (timeouts w)
      then report (connectWebSocket (w\<lparr>fired := Suc (fired w)\<rparr>)) else w)"
| "step nts (Interval_tick a) w =
     (if intervals w = [] then w else report (updateFallbackStatus nts a w))"

fun run :: "(rat \<Rightarrow> string) \<Rightarrow> event list \<Rightarrow> world \<Rightarrow> world" where
  "run nts [] w = w"
| "run nts (e # es) w = run nts es (step nts e w)"

text \<open>How often fallback mode was entered, and the unclean closes of a run.\<close>

definition fallback_entries :: "world \<Rightarrow> nat" where
  "fallback_entries w = length (filter (\<lambda>l. l = Fallback_mode) (console w))"

fun unclean :: "event \<Rightarrow> bool" where
  "unclean (Closed wasClean a) = (\<not> wasClean)"
| "unclean e = False"

definition unclean_closes :: "event list \<Rightarrow> nat" where
  "unclean_closes es = length (filter unclean es)"

section \<open>Notions used by the properties\<close>

text \<open>
  The activity line can be shown when the page has the element or a place to put a new
  one. \<open>activity_view\<close> is what the line shows: its markup and its \<open>display\<close>;
  \<open>old_markup\<close> is the markup before a call, which hiding the line leaves in place.
\<close>

definition mountable :: "dom \<Rightarrow> bool" where
  "mountable d \<longleftrightarrow> discord_activity d \<noteq> None \<or> profile_info d"

definition activity_view :: "world \<Rightarrow> (markup \<times> string) option" where
  "activity_view w = map_option (\<lambda>el. (innerHTML el, display el)) (discord_activity (page w))"

definition old_markup :: "world \<Rightarrow> markup" where
  "old_markup w =
     (case discord_activity (page w) of Some el \<Rightarrow> innerHTML el | None \<Rightarrow> Static '''')"

text \<open>
  A sequence of activities is well-formed when none of them is \<open>undefined\<close> or \<open>null\<close>
  and all are plain. \<open>optional\<close> keeps a part of a template when its condition is true.
\<close>

definition wellformed :: "jsval list \<Rightarrow> bool" where
  "wellformed xs \<longleftrightarrow> list_all (\<lambda>a. \<not> nullish a \<and> plain a) xs"

definition optional :: "jsval \<Rightarrow> 'a \<Rightarrow> 'a option" where
  "optional v x = (if truthy v then Some x else None)"

text \<open>
  A page for the closed examples: indicator dot and text are there, nothing assigned yet;
  the activity line is not, its container \<open>.profile-info\<close> is. The examples print no
  number, so any printer serves them.
\<close>

definition example_page :: dom where
  "example_page =
     \<lparr>statusDot = Some \<lparr>background = JStr '''', boxShadow = JStr ''''\<rparr>,
      statusText = Some \<lparr>textContent = JStr '''', color = JStr ''''\<rparr>,
      discord_activity = None,
      profile_info = True\<rparr>"

definition example_world :: world where
  "example_world = new_LanyardIntegration ''1413802676776337469'' example_page True"

text \<open>The same client on a page that has \<open>.profile-info\<close> and none of the other elements.\<close>

definition bare_world :: world where
  "bare_world =
     new_LanyardIntegration ''1413802676776337469''
       \<lparr>statusDot = None, statusText = None, discord_activity = None, profile_info = True\<rparr>
       True"

definition printer :: "rat \<Rightarrow> string" where
  "printer q = ''0''"

text \<open>
  A client started at noon whose first request times out, and two runs of it in which the
  socket never opens: each socket closes uncleanly, and each scheduled reconnection comes
  due before the next close. \<open>five_failures\<close> ends with the fifth close,
  \<open>six_failures\<close> with the sixth.
\<close>

definition noon :: ambient where
  "noon = \<lparr>hour = 12, random = 1 / 2\<rparr>"

definition started_world :: world where
  "started_world = snd (init printer noon Timed_out example_world)"

definition five_failures :: "event list" where
  "five_failures =
     [Closed False noon, Timer_fired, Closed False noon, Timer_fired, Closed False noon,
      Timer_fired, Closed False noon, Timer_fired, Closed False noon]"

definition six_failures :: "event list" where
  "six_failures = five_failures @ [Timer_fired, Closed False noon]"

section \<open>Properties of the renderer\<close>

subsection \<open>Finding activities\<close>

lemmas example_defs = example_world_def example_page_def new_LanyardIntegration_def

text \<open>A plain value converts without an exception, and so does each of its properties.\<close>

lemma plain_converts:
  "plain v \<Longrightarrow> \<exists>s. ToString nts v = Inr s"
  "\<forall>x \<in> set xs. plain x \<Longrightarrow> \<exists>s. join nts xs = Inr s"
  by (induction nts v and nts xs rule: ToString_join.induct) auto

lemma plain_ToString: "plain v \<Longrightarrow> ToString nts v = Inr (string_of nts v)"
  using plain_converts(1) [of v nts] by (auto simp: string_of_def)

lemma string_of_simps [simp]:
  "string_of nts (JStr s) = s"
  "string_of nts JUndefined = ''undefined''"
  by (simp_all add: string_of_def)

lemma plain_field: "plain a \<Longrightarrow> plain (field a k)"
proof (cases a)
  case (JObj ps)
  assume "plain a"
  with JObj show ?thesis
    by (auto split: option.splits dest!: map_of_SomeD)
qed simp_all

text \<open>
  On a well-formed sequence no callback throws, so that \<open>find\<close> is the search for the
  first element passing the test; an element that passes is an object, hence true.
\<close>

lemma find_js_callback:
  "wellformed xs \<Longrightarrow>
   find_js (callback t) xs = Inr (case List.find t xs of Some a \<Rightarrow> a | None \<Rightarrow> JUndefined)"
  by (induction xs) (auto simp: callback_def wellformed_def)

lemma find_wellformed: "wellformed xs \<Longrightarrow> List.find t xs = Some a \<Longrightarrow> plain a"
  by (auto simp: wellformed_def find_Some_iff list_all_iff)

lemma field_defined_truthy: "field a k \<noteq> JUndefined \<Longrightarrow> truthy a"
  by (cases a) auto

lemma find_Some_test: "List.find t xs = Some a \<Longrightarrow> t a"
  by (auto simp: find_Some_iff)

lemma game_truthy: "gameActivity_test a \<Longrightarrow> truthy a"
  by (rule field_defined_truthy [of a "''type''"]) (simp add: gameActivity_test_def)

lemma custom_truthy: "customStatus_test a \<Longrightarrow> truthy a"
  by (rule field_defined_truthy [of a "''type''"]) (simp add: customStatus_test_def)

lemma spotify_truthy: "spotifyActivity_test a \<Longrightarrow> truthy a"
  by (rule field_defined_truthy [of a "''name''"]) (simp add: spotifyActivity_test_def)

text \<open>The three templates on a plain activity.\<close>

lemma playing_markup_plain:
  "plain g \<Longrightarrow> playing_markup nts g =
     Inr (Playing (string_of nts (field g ''name''))
            (optional (field g ''details'') (string_of nts (field g ''details''))))"
  by (simp add: playing_markup_def plain_ToString plain_field optional_def)

lemma listening_markup_plain:
  "plain s \<Longrightarrow> listening_markup nts s =
     Inr (Listening_to
            (optional (field s ''details'')
               (string_of nts (field s ''details''), string_of nts (field s ''state''))))"
  by (simp add: listening_markup_def plain_ToString plain_field optional_def)

lemma status_markup_plain:
  "plain c \<Longrightarrow> status_markup nts c =
     Inr (Status
            (optional (field c ''emoji'') (string_of nts (field (field c ''emoji'') ''name'')))
            (string_of nts (field c ''state'')))"
  by (simp add: status_markup_def plain_ToString plain_field optional_def)

lemma activityElement_mountable:
  "mountable (page w) \<Longrightarrow>
   \<exists>el w1. activityElement w = Inr (el, w1) \<and> innerHTML el = old_markup w"
  by (auto simp: mountable_def activityElement_def old_markup_def created_element_def
      split: option.splits)

lemma activity_view_set [simp]:
  "activity_view (set_activity el w) = Some (innerHTML el, display el)"
  by (simp add: activity_view_def set_activity_def)

text \<open>
  What \<open>updateActivity\<close> does with a well-formed sequence, for a status other than
  \<open>offline\<close> and for \<open>offline\<close>.
\<close>

lemma updateActivity_online:
  assumes wf: "wellformed xs"
    and el: "activityElement w = Inr (el, w1)"
    and st: "status \<noteq> JStr ''offline''"
  shows "updateActivity nts (JArr xs) status w =
    (None, set_activity
      (case List.find gameActivity_test xs of
         Some g \<Rightarrow>
           el\<lparr>innerHTML := Playing (string_of nts (field g ''name''))
                    (optional (field g ''details'') (string_of nts (field g ''details''))),
              display := ''block''\<rparr>
       | None \<Rightarrow>
      (case List.find spotifyActivity_test xs of
         Some s \<Rightarrow>
           el\<lparr>innerHTML := Listening_to
                    (optional (field s ''details'')
                       (string_of nts (field s ''details''), string_of nts (field s ''state''))),
              display := ''block''\<rparr>
       | None \<Rightarrow>
      (case List.find customStatus_test xs of
         Some c \<Rightarrow>
           (if truthy (field c ''state'') then
              el\<lparr>innerHTML := Status
                       (optional (field c ''emoji'')
                          (string_of nts (field (field c ''emoji'') ''name'')))
                       (string_of nts (field c ''state'')),
                 display := ''block''\<rparr>
            else el\<lparr>display := ''none''\<rparr>)
       | None \<Rightarrow> el\<lparr>display := ''none''\<rparr>))) w1)"
proof (cases "List.find gameActivity_test xs")
  case (Some g)
  have "plain g" "truthy g"
    by (rule find_wellformed [OF wf Some], rule game_truthy, rule find_Some_test [OF Some])
  then show ?thesis using el st Some
    by (simp add: updateActivity_def find_js_callback [OF wf] show_activity_def
        playing_markup_plain)
next
  case None
  note g = None
  show ?thesis
  proof (cases "List.find spotifyActivity_test xs")
    case (Some s)
    have "plain s" "truthy s"
      by (rule find_wellformed [OF wf Some], rule spotify_truthy, rule find_Some_test [OF Some])
    then show ?thesis using el st Some g
      by (simp add: updateActivity_def find_js_callback [OF wf] show_activity_def
          listening_markup_plain split: option.splits)
  next
    case None
    note s = None
    show ?thesis
    proof (cases "List.find customStatus_test xs")
      case (Some c)
      have "plain c" "truthy c"
        by (rule find_wellformed [OF wf Some], rule custom_truthy, rule find_Some_test [OF Some])
      then show ?thesis using el st Some g s
        by (simp add: updateActivity_def find_js_callback [OF wf] show_activity_def
            status_markup_plain)
    next
      case None
      then show ?thesis using el st g s
        by (simp add: updateActivity_def find_js_callback [OF wf])
    qed
  qed
qed

lemma updateActivity_offline:
  assumes wf: "wellformed xs"
    and el: "activityElement w = Inr (el, w1)"
  shows "updateActivity nts (JArr xs) (JStr ''offline'') w =
    (None, set_activity (el\<lparr>display := ''none''\<rparr>) w1)"
  using el
  by (simp add: updateActivity_def find_js_callback [OF wf] split: option.splits)


subsection \<open>Which activity is shown\<close>

text \<open>
  Claim C3, as amended. For a status other than \<open>offline\<close> and a well-formed sequence
  of activities, on a page that has or can take the activity line, the renderer does not
  throw and shows at most one activity. Of each kind only the first activity in the
  sequence is looked at, and the three are tried by precedence: the first playing
  activity (type 0, not named Spotify or Custom Status) is shown if there is one;
  otherwise the first activity named Spotify if there is one; otherwise the first custom
  status (type 4) if its state is a true value. In every other case the line is hidden
  and its markup left as it was: when there is no activity of any kind, and when the
  first custom status has no state, whatever the custom statuses after it carry.
\<close>

theorem activity_precedence:
  assumes "wellformed xs" and "status \<noteq> JStr ''offline''" and "mountable (page w)"
  shows "fst (updateActivity nts (JArr xs) status w) = None \<and>
    activity_view (snd (updateActivity nts (JArr xs) status w)) =
      Some
        (case List.find gameActivity_test xs of
           Some g \<Rightarrow>
             (Playing (string_of nts (field g ''name''))
                (optional (field g ''details'') (string_of nts (field g ''details''))),
              ''block'')
         | None \<Rightarrow>
        (case List.find spotifyActivity_test xs of
           Some s \<Rightarrow>
             (Listening_to
                (optional (field s ''details'')
                   (string_of nts (field s ''details''), string_of nts (field s ''state''))),
              ''block'')
         | None \<Rightarrow>
        (case List.find customStatus_test xs of
           Some c \<Rightarrow>
             (if truthy (field c ''state'') then
                (Status (optional (field c ''emoji'')
                           (string_of nts (field (field c ''emoji'') ''name'')))
                   (string_of nts (field c ''state'')),
                 ''block'')
              else (old_markup w, ''none''))
         | None \<Rightarrow> (old_markup w, ''none''))))"
proof -
  from assms(3) obtain el w1
    where el: "activityElement w = Inr (el, w1)" and old: "innerHTML el = old_markup w"
    using activityElement_mountable by blast
  show ?thesis
    by (simp add: updateActivity_online [OF assms(1) el assms(2), of nts] old split: option.splits)
qed

text \<open>
  The theorem at a snapshot with a Spotify activity followed by a game: the game is shown.
\<close>

theorem activity_precedence_witness:
  "wellformed [JObj [(''name'', JStr ''Spotify''), (''type'', JNum 2)],
               JObj [(''type'', JNum 0), (''name'', JStr ''Chess'')]] \<and>
   JStr ''online'' \<noteq> JStr ''offline'' \<and>
   mountable (page example_world) \<and>
   activity_view (snd (updateActivity printer
      (JArr [JObj [(''name'', JStr ''Spotify''), (''type'', JNum 2)],
             JObj [(''type'', JNum 0), (''name'', JStr ''Chess'')]])
      (JStr ''online'') example_world)) = Some (Playing ''Chess'' None, ''block'')"
proof -
  have h1: "wellformed [JObj [(''name'', JStr ''Spotify''), (''type'', JNum 2)],
               JObj [(''type'', JNum 0), (''name'', JStr ''Chess'')]]"
    by (simp add: wellformed_def)
  have h2: "JStr ''online'' \<noteq> JStr ''offline''" by simp
  have h3: "mountable (page example_world)"
    by (simp add: mountable_def example_defs)
  from activity_precedence [OF h1 h2 h3, of printer] h1 h2 h3 show ?thesis
    by (simp add: gameActivity_test_def optional_def)
qed

text \<open>
  Claim C3 as stated fails where the only activity is a custom status without a state:
  a custom-status activity is there, the status is \<open>online\<close>, and the line is hidden. It
  stays hidden when a second custom status with the state \<open>hi\<close> follows the first, since
  only the first one is looked at.
\<close>

theorem custom_status_without_state_hidden:
  "customStatus_test (JObj [(''type'', JNum 4), (''name'', JStr ''Custom Status'')]) \<and>
   updateActivity printer (JArr [JObj [(''type'', JNum 4), (''name'', JStr ''Custom Status'')]])
     (JStr ''online'') example_world =
   (None, set_activity (created_element\<lparr>display := ''none''\<rparr>) example_world) \<and>
   customStatus_test
     (JObj [(''type'', JNum 4), (''name'', JStr ''Custom Status''), (''state'', JStr ''hi'')]) \<and>
   updateActivity printer
     (JArr [JObj [(''type'', JNum 4), (''name'', JStr ''Custom Status'')],
            JObj [(''type'', JNum 4), (''name'', JStr ''Custom Status''),
                  (''state'', JStr ''hi'')]])
     (JStr ''online'') example_world =
   (None, set_activity (created_element\<lparr>display := ''none''\<rparr>) example_world)"
  by (simp add: updateActivity_def activityElement_def callback_def example_defs set_activity_def
      customStatus_test_def gameActivity_test_def spotifyActivity_test_def show_activity_def)

text \<open>
  Claim C10. With a status other than \<open>offline\<close>, no playing activity and no activity
  named Spotify, the first custom status \<open>c\<close> is rendered exactly when its \<open>state\<close> is a
  true value: a string that is present and not empty. When the state is absent or the
  empty string the line is hidden.
\<close>

theorem custom_status_needs_state:
  assumes "wellformed xs" and "status \<noteq> JStr ''offline''" and "mountable (page w)"
    and "List.find gameActivity_test xs = None"
    and "List.find spotifyActivity_test xs = None"
    and "List.find customStatus_test xs = Some c"
  shows "fst (updateActivity nts (JArr xs) status w) = None \<and>
    activity_view (snd (updateActivity nts (JArr xs) status w)) =
      Some (if truthy (field c ''state'')
            then (Status (optional (field c ''emoji'')
                            (string_of nts (field (field c ''emoji'') ''name'')))
                    (string_of nts (field c ''state'')), ''block'')
            else (old_markup w, ''none''))"
proof -
  from assms(3) obtain el w1
    where el: "activityElement w = Inr (el, w1)" and old: "innerHTML el = old_markup w"
    using activityElement_mountable by blast
  show ?thesis
    by (simp add: updateActivity_online [OF assms(1) el assms(2), of nts] old assms(4,5,6))
qed

text \<open>
  The theorem at a custom status with state \<open>hi\<close> and an emoji: it is shown.
\<close>

theorem custom_status_needs_state_witness:
  "wellformed [JObj [(''type'', JNum 4), (''name'', JStr ''Custom Status''),
                     (''state'', JStr ''hi''), (''emoji'', JObj [(''name'', JStr ''wave'')])]] \<and>
   JStr ''idle'' \<noteq> JStr ''offline'' \<and>
   mountable (page example_world) \<and>
   List.find gameActivity_test
     [JObj [(''type'', JNum 4), (''name'', JStr ''Custom Status''),
            (''state'', JStr ''hi''), (''emoji'', JObj [(''name'', JStr ''wave'')])]] = None \<and>
   List.find spotifyActivity_test
     [JObj [(''type'', JNum 4), (''name'', JStr ''Custom Status''),
            (''state'', JStr ''hi''), (''emoji'', JObj [(''name'', JStr ''wave'')])]] = None \<and>
   List.find customStatus_test
     [JObj [(''type'', JNum 4), (''name'', JStr ''Custom Status''),
            (''state'', JStr ''hi''), (''emoji'', JObj [(''name'', JStr ''wave'')])]] =
     Some (JObj [(''type'', JNum 4), (''name'', JStr ''Custom Status''),
            (''state'', JStr ''hi''), (''emoji'', JObj [(''name'', JStr ''wave'')])]) \<and>
   activity_view (snd (updateActivity printer
     (JArr [JObj [(''type'', JNum 4), (''name'', JStr ''Custom Status''),
            (''state'', JStr ''hi''), (''emoji'', JObj [(''name'', JStr ''wave'')])]])
     (JStr ''idle'') example_world)) =
     Some (Status (Some ''wave'') ''hi'', ''block'')"
proof -
  let ?c = "JObj [(''type'', JNum 4), (''name'', JStr ''Custom Status''),
            (''state'', JStr ''hi''), (''emoji'', JObj [(''name'', JStr ''wave'')])]"
  have h1: "wellformed [?c]" by (simp add: wellformed_def)
  have h2: "JStr ''idle'' \<noteq> JStr ''offline''" by simp
  have h3: "mountable (page example_world)" by (simp add: mountable_def example_defs)
  have h4: "List.find gameActivity_test [?c] = None" by (simp add: gameActivity_test_def)
  have h5: "List.find spotifyActivity_test [?c] = None" by (simp add: spotifyActivity_test_def)
  have h6: "List.find customStatus_test [?c] = Some ?c" by (simp add: customStatus_test_def)
  from custom_status_needs_state [OF h1 h2 h3 h4 h5 h6, of printer] h1 h2 h3 h4 h5 h6
  show ?thesis by (simp add: optional_def)
qed

subsection \<open>Status offline\<close>

lemma page_log [simp]: "page (log l w) = page w"
  by (simp add: log_def)

text \<open>
  With both indicator elements on the page and a string as status, \<open>updateStatus\<close>
  assigns the four properties from the table and goes on to the activity line.
\<close>

lemma updateStatus_present:
  assumes dot: "statusDot (page w) = Some dot" and tx: "statusText (page w) = Some txt"
    and st: "field userData ''discord_status'' = JStr s"
  shows "updateStatus nts userData w =
    updateActivity nts (activities_of userData) (JStr s)
      ((log (Discord_status (JStr s) (activities_of userData)) (log (Updating_status userData) w))
         \<lparr>page := (page w)
            \<lparr>statusDot := Some (dot\<lparr>background := member_field config_color (config_for s),
                                    boxShadow := member_field config_shadow (config_for s)\<rparr>),
             statusText := Some (txt\<lparr>textContent := member_field config_text (config_for s),
                                     color := member_field config_color (config_for s)\<rparr>)\<rparr>\<rparr>)"
proof -
  have "\<not> nullish userData" using st by (cases userData) auto
  then show ?thesis using dot tx st
    by (simp add: updateStatus_def get_def Let_def)
qed

text \<open>
  Claim C9. For every snapshot whose status is \<open>offline\<close>, whatever activities it
  carries, the renderer hides the activity line: it does not throw and leaves the line
  with \<open>display\<close> \<open>none\<close>. The page has the indicator elements and has or can take the
  activity line; the activities are a well-formed sequence.
\<close>

theorem offline_hides_activity:
  assumes "field userData ''discord_status'' = JStr ''offline''"
    and "activities_of userData = JArr xs" and "wellformed xs"
    and "statusDot (page w) \<noteq> None" and "statusText (page w) \<noteq> None"
    and "mountable (page w)"
  shows "fst (updateStatus nts userData w) = None \<and>
         activity_view (snd (updateStatus nts userData w)) = Some (old_markup w, ''none'')"
proof -
  from assms(4,5) obtain dot tx0
    where dot: "statusDot (page w) = Some dot" and tx: "statusText (page w) = Some tx0"
    by auto
  let ?w2 = "(log (Discord_status (JStr ''offline'') (activities_of userData))
               (log (Updating_status userData) w))
         \<lparr>page := (page w)
            \<lparr>statusDot := Some (dot\<lparr>background := member_field config_color (config_for ''offline''),
                                    boxShadow := member_field config_shadow (config_for ''offline'')\<rparr>),
             statusText := Some (tx0\<lparr>textContent := member_field config_text (config_for ''offline''),
                                     color := member_field config_color (config_for ''offline'')\<rparr>)\<rparr>\<rparr>"
  have m: "mountable (page ?w2)" using assms(6) by (simp add: mountable_def)
  have o: "old_markup ?w2 = old_markup w" by (simp add: old_markup_def)
  from m obtain el w1
    where el: "activityElement ?w2 = Inr (el, w1)" and old: "innerHTML el = old_markup ?w2"
    using activityElement_mountable by blast
  have "updateStatus nts userData w = updateActivity nts (JArr xs) (JStr ''offline'') ?w2"
    using updateStatus_present [OF dot tx assms(1)] assms(2) by simp
  also have "\<dots> = (None, set_activity (el\<lparr>display := ''none''\<rparr>) w1)"
    by (rule updateActivity_offline [OF assms(3) el])
  finally show ?thesis using old o by simp
qed

text \<open>
  The theorem at an offline snapshot that carries a game.
\<close>

theorem offline_hides_activity_witness:
  "field (JObj [(''discord_status'', JStr ''offline''),
                (''activities'', JArr [JObj [(''type'', JNum 0), (''name'', JStr ''Chess'')]])])
     ''discord_status'' = JStr ''offline'' \<and>
   activities_of (JObj [(''discord_status'', JStr ''offline''),
                (''activities'', JArr [JObj [(''type'', JNum 0), (''name'', JStr ''Chess'')]])])
     = JArr [JObj [(''type'', JNum 0), (''name'', JStr ''Chess'')]] \<and>
   wellformed [JObj [(''type'', JNum 0), (''name'', JStr ''Chess'')]] \<and>
   statusDot (page example_world) \<noteq> None \<and>
   statusText (page example_world) \<noteq> None \<and>
   mountable (page example_world) \<and>
   fst (updateStatus printer
          (JObj [(''discord_status'', JStr ''offline''),
                 (''activities'', JArr [JObj [(''type'', JNum 0), (''name'', JStr ''Chess'')]])])
          example_world) = None \<and>
   activity_view (snd (updateStatus printer
          (JObj [(''discord_status'', JStr ''offline''),
                 (''activities'', JArr [JObj [(''type'', JNum 0), (''name'', JStr ''Chess'')]])])
          example_world)) = Some (Static '''', ''none'')"
proof -
  let ?u = "JObj [(''discord_status'', JStr ''offline''),
                 (''activities'', JArr [JObj [(''type'', JNum 0), (''name'', JStr ''Chess'')]])]"
  have h1: "field ?u ''discord_status'' = JStr ''offline''" by simp
  have h2: "activities_of ?u = JArr [JObj [(''type'', JNum 0), (''name'', JStr ''Chess'')]]"
    by (simp add: activities_of_def)
  have h3: "wellformed [JObj [(''type'', JNum 0), (''name'', JStr ''Chess'')]]"
    by (simp add: wellformed_def)
  have h4: "statusDot (page example_world) \<noteq> None" by (simp add: example_defs)
  have h5: "statusText (page example_world) \<noteq> None" by (simp add: example_defs)
  have h6: "mountable (page example_world)" by (simp add: mountable_def example_defs)
  have o: "old_markup example_world = Static ''''" by (simp add: old_markup_def example_defs)
  from offline_hides_activity [OF h1 h2 h3 h4 h5 h6, of printer] h1 h2 h3 h4 h5 h6 o
  show ?thesis by simp
qed

subsection \<open>The status table\<close>

text \<open>
  The four recognized codes give their entries, and a string that is neither a code nor
  a name of \<open>Object.prototype\<close> gives the entry of \<open>offline\<close>.
\<close>

lemma config_for_recognized:
  "config_for ''online'' =
     Own \<lparr>config_color = ''#555'', config_text = ''Online'', config_shadow = ''0 0 5px #555''\<rparr>"
  "config_for ''idle'' =
     Own \<lparr>config_color = ''#666'', config_text = ''Away'', config_shadow = ''0 0 5px #666''\<rparr>"
  "config_for ''dnd'' =
     Own \<lparr>config_color = ''#777'', config_text = ''Busy'', config_shadow = ''0 0 5px #777''\<rparr>"
  "config_for ''offline'' =
     Own \<lparr>config_color = ''#333'', config_text = ''Offline'', config_shadow = ''0 0 5px #333''\<rparr>"
  by (simp_all add: config_for_def statusConfig_at_def statusConfig_def)

lemma config_for_other:
  assumes "k \<notin> set [''online'', ''idle'', ''dnd'', ''offline'']"
    and "k \<notin> set Object_prototype_names"
  shows "config_for k = config_for ''offline''"
  using assms by (simp add: config_for_def statusConfig_at_def statusConfig_def)

lemma config_for_inherited:
  "k \<in> set Object_prototype_names \<Longrightarrow> config_for k = Inherited"
  by (auto simp add: config_for_def statusConfig_at_def statusConfig_def Object_prototype_names_def)

text \<open>
  Claim C5 at the unrecognized code \<open>constructor\<close>. The lookup finds the member
  inherited from \<open>Object.prototype\<close>, which is a true value, so the default is not taken:
  colour, shadow and label assigned to the indicator are \<open>undefined\<close>, where the entry of
  \<open>offline\<close> would give \<open>#333\<close>, \<open>0 0 5px #333\<close> and \<open>Offline\<close>.
\<close>

theorem inherited_status_not_offline:
  "ToString printer (JStr ''constructor'') = Inr ''constructor'' \<and>
   statusConfig_at ''constructor'' = Inherited \<and>
   config_for ''constructor'' \<noteq> config_for ''offline'' \<and>
   page (snd (updateStatus printer (synthetic_snapshot ''constructor'') example_world)) =
     \<lparr>statusDot = Some \<lparr>background = JUndefined, boxShadow = JUndefined\<rparr>,
      statusText = Some \<lparr>textContent = JUndefined, color = JUndefined\<rparr>,
      discord_activity = Some \<lparr>innerHTML = Static '''', display = ''none''\<rparr>,
      profile_info = True\<rparr> \<and>
   page (snd (updateStatus printer (synthetic_snapshot ''offline'') example_world)) =
     \<lparr>statusDot = Some \<lparr>background = JStr ''#333'', boxShadow = JStr ''0 0 5px #333''\<rparr>,
      statusText = Some \<lparr>textContent = JStr ''Offline'', color = JStr ''#333''\<rparr>,
      discord_activity = Some \<lparr>innerHTML = Static '''', display = ''none''\<rparr>,
      profile_info = True\<rparr>"
  by (simp add: updateStatus_def synthetic_snapshot_def example_defs get_def log_def
      activities_of_def config_for_def statusConfig_at_def statusConfig_def
      Object_prototype_names_def updateActivity_def activityElement_def set_activity_def
      created_element_def show_activity_def Let_def)

subsection \<open>Elements missing from the page\<close>

text \<open>
  Claim C2, as amended. When the status dot or the status text is missing, rendering any
  snapshot is a no-op: nothing is thrown, no element changes, two lines are logged. A
  missing activity line is not a no-op: when \<open>.profile-info\<close> is there, the line is
  created in it and rendering goes on as on a page that had the new, empty line.
\<close>

theorem missing_indicator_is_noop:
  "(statusDot (page w) = None \<or> statusText (page w) = None \<longrightarrow>
      updateStatus nts userData w =
        (None, log Elements_not_found (log (Updating_status userData) w))) \<and>
   (discord_activity (page w) = None \<and> profile_info (page w) \<longrightarrow>
      updateActivity nts' activities status w =
        updateActivity nts' activities status (set_activity created_element w))"
proof -
  have a: "statusDot (page w) = None \<or> statusText (page w) = None \<longrightarrow>
      updateStatus nts userData w =
        (None, log Elements_not_found (log (Updating_status userData) w))"
    by (auto simp: updateStatus_def Let_def split: option.splits)
  have b: "discord_activity (page w) = None \<and> profile_info (page w) \<longrightarrow>
      updateActivity nts' activities status w =
        updateActivity nts' activities status (set_activity created_element w)"
  proof
    assume p: "discord_activity (page w) = None \<and> profile_info (page w)"
    then have 1: "activityElement w = Inr (created_element, set_activity created_element w)"
      by (simp add: activityElement_def set_activity_def)
    have 2: "activityElement (set_activity created_element w) =
        Inr (created_element, set_activity created_element w)"
      by (simp add: activityElement_def set_activity_def)
    show "updateActivity nts' activities status w =
        updateActivity nts' activities status (set_activity created_element w)"
      by (simp add: updateActivity_def 1 2)
  qed
  from a b show ?thesis by blast
qed

text \<open>
  The theorem on the page that has \<open>.profile-info\<close> only.
\<close>

theorem missing_indicator_is_noop_witness:
  "(statusDot (page bare_world) = None \<or> statusText (page bare_world) = None) \<and>
   updateStatus printer (synthetic_snapshot ''online'') bare_world =
     (None, log Elements_not_found
              (log (Updating_status (synthetic_snapshot ''online'')) bare_world)) \<and>
   (discord_activity (page bare_world) = None \<and> profile_info (page bare_world)) \<and>
   updateActivity printer (JArr []) (JStr ''online'') bare_world =
     updateActivity printer (JArr []) (JStr ''online'') (set_activity created_element bare_world)"
proof -
  have h1: "statusDot (page bare_world) = None \<or> statusText (page bare_world) = None"
    by (simp add: bare_world_def new_LanyardIntegration_def)
  have h2: "discord_activity (page bare_world) = None \<and> profile_info (page bare_world)"
    by (simp add: bare_world_def new_LanyardIntegration_def)
  from missing_indicator_is_noop
         [of bare_world printer "synthetic_snapshot ''online''" printer "JArr []" "JStr ''online''"]
       h1 h2
  show ?thesis by blast
qed

text \<open>
  Without the line and without \<open>.profile-info\<close> the call of \<open>appendChild\<close> throws.
\<close>

lemma updateActivity_no_container:
  "discord_activity (page w) = None \<Longrightarrow> \<not> profile_info (page w) \<Longrightarrow>
   updateActivity nts activities status w = (Some TypeError, w)"
  by (simp add: updateActivity_def activityElement_def)

text \<open>
  Claim C2 as stated fails on a page without the activity line: rendering the snapshot
  \<open>online\<close> without activities assigns the indicator and creates the line.
\<close>

theorem activity_container_created:
  "discord_activity (page example_world) = None \<and>
   updateStatus printer (synthetic_snapshot ''online'') example_world =
     (None, example_world
        \<lparr>page :=
           \<lparr>statusDot = Some \<lparr>background = JStr ''#555'', boxShadow = JStr ''0 0 5px #555''\<rparr>,
            statusText = Some \<lparr>textContent = JStr ''Online'', color = JStr ''#555''\<rparr>,
            discord_activity = Some \<lparr>innerHTML = Static '''', display = ''none''\<rparr>,
            profile_info = True\<rparr>,
         console :=
           [Updating_status (synthetic_snapshot ''online''),
            Discord_status (JStr ''online'') (JArr [])]\<rparr>)"
  by (simp add: updateStatus_def synthetic_snapshot_def example_defs get_def log_def
      activities_of_def config_for_def statusConfig_at_def statusConfig_def
      Object_prototype_names_def updateActivity_def activityElement_def set_activity_def
      created_element_def show_activity_def Let_def)

section \<open>Properties of the connection manager\<close>

subsection \<open>What the renderer leaves alone\<close>

text \<open>
  Rendering touches the page and the console and nothing else of the client, and it
  never writes the line that announces fallback mode.
\<close>

lemma updateActivity_frame:
  "websocket (snd (updateActivity nts acts st w)) = websocket w"
  "reconnectAttempts (snd (updateActivity nts acts st w)) = reconnectAttempts w"
  "maxReconnectAttempts (snd (updateActivity nts acts st w)) = maxReconnectAttempts w"
  "timeouts (snd (updateActivity nts acts st w)) = timeouts w"
  "fired (snd (updateActivity nts acts st w)) = fired w"
  "intervals (snd (updateActivity nts acts st w)) = intervals w"
  "sockets (snd (updateActivity nts acts st w)) = sockets w"
  "ws_available (snd (updateActivity nts acts st w)) = ws_available w"
  "uncaught (snd (updateActivity nts acts st w)) = uncaught w"
  "console (snd (updateActivity nts acts st w)) = console w"
  by (auto simp: updateActivity_def activityElement_def set_activity_def show_activity_def
      split: option.splits sum.splits)

lemma updateStatus_frame:
  "websocket (snd (updateStatus nts u w)) = websocket w"
  "reconnectAttempts (snd (updateStatus nts u w)) = reconnectAttempts w"
  "maxReconnectAttempts (snd (updateStatus nts u w)) = maxReconnectAttempts w"
  "timeouts (snd (updateStatus nts u w)) = timeouts w"
  "fired (snd (updateStatus nts u w)) = fired w"
  "intervals (snd (updateStatus nts u w)) = intervals w"
  "sockets (snd (updateStatus nts u w)) = sockets w"
  "ws_available (snd (updateStatus nts u w)) = ws_available w"
  "uncaught (snd (updateStatus nts u w)) = uncaught w"
  "fallback_entries (snd (updateStatus nts u w)) = fallback_entries w"
  by (auto simp: updateStatus_def Let_def log_def updateActivity_frame fallback_entries_def
      split: option.splits sum.splits)


lemma fallback_entries_log [simp]:
  "fallback_entries (log l w) = (if l = Fallback_mode then Suc (fallback_entries w) else fallback_entries w)"
  by (simp add: fallback_entries_def log_def)

subsection \<open>The handlers, field by field\<close>

lemma fallback_entries_update [simp]:
  "fallback_entries (w\<lparr>intervals := i\<rparr>) = fallback_entries w"
  "fallback_entries (w\<lparr>reconnectAttempts := n\<rparr>) = fallback_entries w"
  "fallback_entries (w\<lparr>timeouts := t\<rparr>) = fallback_entries w"
  "fallback_entries (w\<lparr>fired := f\<rparr>) = fallback_entries w"
  "fallback_entries (w\<lparr>websocket := s\<rparr>) = fallback_entries w"
  "fallback_entries (w\<lparr>sockets := k\<rparr>) = fallback_entries w"
  "fallback_entries (w\<lparr>sent := m\<rparr>) = fallback_entries w"
  "fallback_entries (w\<lparr>uncaught := u\<rparr>) = fallback_entries w"
  by (simp_all add: fallback_entries_def)

lemma log_fields [simp]:
  "websocket (log l w) = websocket w"
  "reconnectAttempts (log l w) = reconnectAttempts w"
  "maxReconnectAttempts (log l w) = maxReconnectAttempts w"
  "timeouts (log l w) = timeouts w"
  "fired (log l w) = fired w"
  "intervals (log l w) = intervals w"
  "sockets (log l w) = sockets w"
  "ws_available (log l w) = ws_available w"
  "uncaught (log l w) = uncaught w"
  "page (log l w) = page w"
  by (simp_all add: log_def)

lemma report_fields [simp]:
  "websocket (report r) = websocket (snd r)"
  "reconnectAttempts (report r) = reconnectAttempts (snd r)"
  "maxReconnectAttempts (report r) = maxReconnectAttempts (snd r)"
  "timeouts (report r) = timeouts (snd r)"
  "fired (report r) = fired (snd r)"
  "intervals (report r) = intervals (snd r)"
  "sockets (report r) = sockets (snd r)"
  "ws_available (report r) = ws_available (snd r)"
  "fallback_entries (report r) = fallback_entries (snd r)"
  "page (report r) = page (snd r)"
  by (auto simp: report_def split: prod.splits option.splits)

lemma updateFallbackStatus_frame:
  "websocket (snd (updateFallbackStatus nts a w)) = websocket w"
  "reconnectAttempts (snd (updateFallbackStatus nts a w)) = reconnectAttempts w"
  "maxReconnectAttempts (snd (updateFallbackStatus nts a w)) = maxReconnectAttempts w"
  "timeouts (snd (updateFallbackStatus nts a w)) = timeouts w"
  "fired (snd (updateFallbackStatus nts a w)) = fired w"
  "intervals (snd (updateFallbackStatus nts a w)) = intervals w"
  "sockets (snd (updateFallbackStatus nts a w)) = sockets w"
  "ws_available (snd (updateFallbackStatus nts a w)) = ws_available w"
  "fallback_entries (snd (updateFallbackStatus nts a w)) = fallback_entries w"
  by (simp_all add: updateFallbackStatus_def Let_def updateStatus_frame)

lemma useFallback_frame:
  "websocket (snd (useFallback nts a w)) = websocket w"
  "reconnectAttempts (snd (useFallback nts a w)) = reconnectAttempts w"
  "maxReconnectAttempts (snd (useFallback nts a w)) = maxReconnectAttempts w"
  "timeouts (snd (useFallback nts a w)) = timeouts w"
  "fired (snd (useFallback nts a w)) = fired w"
  "sockets (snd (useFallback nts a w)) = sockets w"
  "ws_available (snd (useFallback nts a w)) = ws_available w"
  "fallback_entries (snd (useFallback nts a w)) = Suc (fallback_entries w)"
proof -
  obtain r w1 where u: "updateFallbackStatus nts a (log Fallback_mode w) = (r, w1)"
    by (cases "updateFallbackStatus nts a (log Fallback_mode w)")
  have w1: "w1 = snd (updateFallbackStatus nts a (log Fallback_mode w))" using u by simp
  have s: "snd (useFallback nts a w) = (case r of Some e \<Rightarrow> w1 | None \<Rightarrow> w1\<lparr>intervals := intervals w1 @ [60000]\<rparr>)"
    by (simp add: useFallback_def u split: option.splits)
  show "websocket (snd (useFallback nts a w)) = websocket w"
    "reconnectAttempts (snd (useFallback nts a w)) = reconnectAttempts w"
    "maxReconnectAttempts (snd (useFallback nts a w)) = maxReconnectAttempts w"
    "timeouts (snd (useFallback nts a w)) = timeouts w"
    "fired (snd (useFallback nts a w)) = fired w"
    "sockets (snd (useFallback nts a w)) = sockets w"
    "ws_available (snd (useFallback nts a w)) = ws_available w"
    "fallback_entries (snd (useFallback nts a w)) = Suc (fallback_entries w)"
    by (simp_all add: s w1 updateFallbackStatus_frame split: option.splits)
qed

lemma attemptReconnect_effect:
  "websocket (snd (attemptReconnect nts a w)) = websocket w"
  "maxReconnectAttempts (snd (attemptReconnect nts a w)) = maxReconnectAttempts w"
  "reconnectAttempts (snd (attemptReconnect nts a w)) =
     (if reconnectAttempts w < maxReconnectAttempts w
      then Suc (reconnectAttempts w) else reconnectAttempts w)"
  "timeouts (snd (attemptReconnect nts a w)) =
     (if reconnectAttempts w < maxReconnectAttempts w
      then timeouts w @ [reconnect_delay (Suc (reconnectAttempts w))] else timeouts w)"
  "fallback_entries (snd (attemptReconnect nts a w)) =
     (if reconnectAttempts w < maxReconnectAttempts w
      then fallback_entries w else Suc (fallback_entries w))"
  by (simp_all add: attemptReconnect_def Let_def useFallback_frame)


lemma send_fields [simp]:
  "websocket (send m w) = websocket w"
  "reconnectAttempts (send m w) = reconnectAttempts w"
  "maxReconnectAttempts (send m w) = maxReconnectAttempts w"
  "timeouts (send m w) = timeouts w"
  "intervals (send m w) = intervals w"
  "fallback_entries (send m w) = fallback_entries w"
  "page (send m w) = page w"
  by (simp_all add: send_def)

lemma onmessage_frame:
  "websocket (snd (onmessage nts m w)) = websocket w"
  "reconnectAttempts (snd (onmessage nts m w)) = reconnectAttempts w"
  "maxReconnectAttempts (snd (onmessage nts m w)) = maxReconnectAttempts w"
  "timeouts (snd (onmessage nts m w)) = timeouts w"
  "intervals (snd (onmessage nts m w)) = intervals w"
  "fallback_entries (snd (onmessage nts m w)) = fallback_entries w"
  by (simp_all add: onmessage_def Let_def updateStatus_frame split: payload.splits sum.splits)

lemma onclose_effect:
  "websocket (snd (onclose nts a c w)) = websocket w"
  "maxReconnectAttempts (snd (onclose nts a c w)) = maxReconnectAttempts w"
  "reconnectAttempts (snd (onclose nts a c w)) =
     (if \<not> c \<and> reconnectAttempts w < maxReconnectAttempts w
      then Suc (reconnectAttempts w) else reconnectAttempts w)"
  "timeouts (snd (onclose nts a c w)) =
     (if \<not> c \<and> reconnectAttempts w < maxReconnectAttempts w
      then timeouts w @ [reconnect_delay (Suc (reconnectAttempts w))] else timeouts w)"
  "fallback_entries (snd (onclose nts a c w)) =
     (if \<not> c \<and> \<not> reconnectAttempts w < maxReconnectAttempts w
      then Suc (fallback_entries w) else fallback_entries w)"
  by (simp_all add: onclose_def Let_def attemptReconnect_effect)

lemma connectWebSocket_effect:
  "websocket (snd (connectWebSocket w)) = (if ws_available w then Some (sockets w) else websocket w)"
  "reconnectAttempts (snd (connectWebSocket w)) = reconnectAttempts w"
  "maxReconnectAttempts (snd (connectWebSocket w)) = maxReconnectAttempts w"
  "timeouts (snd (connectWebSocket w)) = timeouts w"
  "intervals (snd (connectWebSocket w)) = intervals w"
  "fallback_entries (snd (connectWebSocket w)) = fallback_entries w"
  by (simp_all add: connectWebSocket_def)

text \<open>What one event other than an open does to the counter, the schedule and the fallback.\<close>

lemma step_effect:
  assumes "e \<noteq> Opened" and "websocket w \<noteq> None"
  shows "websocket (step nts e w) \<noteq> None"
    and "maxReconnectAttempts (step nts e w) = maxReconnectAttempts w"
    and "reconnectAttempts (step nts e w) =
      (if unclean e \<and> reconnectAttempts w < maxReconnectAttempts w
       then Suc (reconnectAttempts w) else reconnectAttempts w)"
    and "timeouts (step nts e w) =
      (if unclean e \<and> reconnectAttempts w < maxReconnectAttempts w
       then timeouts w @ [reconnect_delay (Suc (reconnectAttempts w))] else timeouts w)"
    and "fallback_entries (step nts e w) =
      (if unclean e \<and> \<not> reconnectAttempts w < maxReconnectAttempts w
       then Suc (fallback_entries w) else fallback_entries w)"
proof -
  from assms(2) obtain k where ws: "websocket w = Some k" by auto
  note e = assms(1)
  show "websocket (step nts e w) \<noteq> None"
    using e
    by (cases e) (simp_all add: ws onmessage_frame onclose_effect connectWebSocket_effect
        onerror_def updateFallbackStatus_frame)
  show "maxReconnectAttempts (step nts e w) = maxReconnectAttempts w"
    using e
    by (cases e) (simp_all add: ws onmessage_frame onclose_effect connectWebSocket_effect
        onerror_def updateFallbackStatus_frame)
  show "reconnectAttempts (step nts e w) =
      (if unclean e \<and> reconnectAttempts w < maxReconnectAttempts w
       then Suc (reconnectAttempts w) else reconnectAttempts w)"
    using e
    by (cases e) (simp_all add: ws onmessage_frame onclose_effect connectWebSocket_effect
        onerror_def updateFallbackStatus_frame)
  show "timeouts (step nts e w) =
      (if unclean e \<and> reconnectAttempts w < maxReconnectAttempts w
       then timeouts w @ [reconnect_delay (Suc (reconnectAttempts w))] else timeouts w)"
    using e
    by (cases e) (simp_all add: ws onmessage_frame onclose_effect connectWebSocket_effect
        onerror_def updateFallbackStatus_frame)
  show "fallback_entries (step nts e w) =
      (if unclean e \<and> \<not> reconnectAttempts w < maxReconnectAttempts w
       then Suc (fallback_entries w) else fallback_entries w)"
    using e
    by (cases e) (simp_all add: ws onmessage_frame onclose_effect connectWebSocket_effect
        onerror_def updateFallbackStatus_frame)
qed


text \<open>
  Over a run without an open the counter climbs by one with each unclean close until it
  reaches the ceiling; each climb schedules one reconnection, and every unclean close
  after that enters fallback mode and schedules nothing.
\<close>

lemma run_reconnect:
  assumes "Opened \<notin> set es" and "websocket w \<noteq> None"
    and "maxReconnectAttempts w = 5" and "reconnectAttempts w \<le> 5"
  shows "reconnectAttempts (run nts es w) = min 5 (reconnectAttempts w + unclean_closes es) \<and>
    timeouts (run nts es w) =
      timeouts w @ map reconnect_delay
        [Suc (reconnectAttempts w) ..< Suc (min 5 (reconnectAttempts w + unclean_closes es))] \<and>
    fallback_entries (run nts es w) =
      fallback_entries w + (reconnectAttempts w + unclean_closes es - 5)"
  using assms
proof (induction es arbitrary: w)
  case Nil
  then show ?case by (simp add: unclean_closes_def)
next
  case (Cons e es)
  from Cons.prems have e: "e \<noteq> Opened" and es: "Opened \<notin> set es" by auto
  note st = step_effect [OF e Cons.prems(2), of nts]
  have ra: "reconnectAttempts (step nts e w) \<le> 5"
    using st(3) Cons.prems(3,4) by (simp split: if_splits)
  have mx: "maxReconnectAttempts (step nts e w) = 5" using st(2) Cons.prems(3) by simp
  note IH = Cons.IH [OF es st(1) mx ra]
  show ?case
  proof (cases "unclean e")
    case False
    then show ?thesis using IH st(3,4,5) by (simp add: unclean_closes_def)
  next
    case True
    show ?thesis
    proof (cases "reconnectAttempts w < 5")
      case True
      with \<open>unclean e\<close> Cons.prems(3) have
        "reconnectAttempts (step nts e w) = Suc (reconnectAttempts w)"
        "timeouts (step nts e w) = timeouts w @ [reconnect_delay (Suc (reconnectAttempts w))]"
        "fallback_entries (step nts e w) = fallback_entries w"
        using st(3,4,5) by simp_all
      with IH \<open>unclean e\<close> True show ?thesis
        by (simp add: unclean_closes_def upt_conv_Cons del: upt_Suc)
    next
      case False
      with Cons.prems(4) have five: "reconnectAttempts w = 5" by simp
      with \<open>unclean e\<close> Cons.prems(3) have
        "reconnectAttempts (step nts e w) = 5"
        "timeouts (step nts e w) = timeouts w"
        "fallback_entries (step nts e w) = Suc (fallback_entries w)"
        using st(3,4,5) by simp_all
      with IH \<open>unclean e\<close> five show ?thesis
        by (simp add: unclean_closes_def)
    qed
  qed
qed


subsection \<open>The ceiling on reconnections\<close>

text \<open>
  Claim C1, as amended. In every run that starts with the counter at 0 (at the start, or
  right after an open) and contains no open, whatever else happens in it: the
  reconnections scheduled are those of the first five unclean closes, with delays 3000,
  6000, ... in order, so never more than five; fallback mode is entered at the sixth
  unclean close and at every later one, and not before. After exactly five unclean closes
  five reconnections have been scheduled and fallback mode has not been entered; the
  sixth schedules no sixth reconnection.
\<close>

theorem reconnect_ceiling:
  assumes "Opened \<notin> set es" and "websocket w \<noteq> None"
    and "maxReconnectAttempts w = 5" and "reconnectAttempts w = 0"
  shows "timeouts (run nts es w) =
      timeouts w @ map reconnect_delay [1 ..< Suc (min 5 (unclean_closes es))] \<and>
    length (timeouts (run nts es w)) = length (timeouts w) + min 5 (unclean_closes es) \<and>
    fallback_entries (run nts es w) = fallback_entries w + (unclean_closes es - 5)"
  using run_reconnect [OF assms(1,2,3), of nts] assms(4) by simp

text \<open>
  The example client after its start: the time-out is logged and socket 0 is connecting.
\<close>

lemma started_world_eq:
  "started_world = example_world\<lparr>websocket := Some 0, sockets := 1, console := [Request_timed_out]\<rparr>"
  by (simp add: started_world_def init_def fetchInitialStatus_def fetchInitialStatus_try_def
      connectWebSocket_def example_defs log_def)

text \<open>
  The theorem on the run with six unclean closes.
\<close>

theorem reconnect_ceiling_witness:
  "Opened \<notin> set six_failures \<and> websocket started_world \<noteq> None \<and>
   maxReconnectAttempts started_world = 5 \<and> reconnectAttempts started_world = 0 \<and>
   unclean_closes six_failures = 6 \<and>
   timeouts (run printer six_failures started_world) = [3000, 6000, 9000, 12000, 15000] \<and>
   fallback_entries (run printer six_failures started_world) = 1"
proof -
  have h1: "Opened \<notin> set six_failures" by (simp add: six_failures_def five_failures_def)
  have h2: "websocket started_world \<noteq> None" by (simp add: started_world_eq)
  have h3: "maxReconnectAttempts started_world = 5" by (simp add: started_world_eq example_defs)
  have h4: "reconnectAttempts started_world = 0" by (simp add: started_world_eq example_defs)
  have k: "unclean_closes six_failures = 6"
    by (simp add: unclean_closes_def six_failures_def five_failures_def)
  have t: "timeouts started_world = []" by (simp add: started_world_eq example_defs)
  have f: "fallback_entries started_world = 0"
    by (simp add: started_world_eq example_defs fallback_entries_def)
  have u: "[1 ..< Suc 5] = [1, 2, 3, 4, 5::nat]" by (simp add: upt_conv_Cons)
  from reconnect_ceiling [OF h1 h2 h3 h4, of printer] h1 h2 h3 h4 k t f u
  show ?thesis by (simp add: reconnect_delay_def)
qed

text \<open>
  Claim C1 as stated fails on the run with exactly five unclean closes and no open: the
  fifth close schedules a fifth reconnection (after 15000 ms, four of the five having
  come due), fallback mode is not entered and no interval is registered. When that fifth
  reconnection comes due and its socket opens, the client is live again with the counter
  back at 0, and has never been in fallback mode.
\<close>

theorem fifth_failure_schedules_retry:
  "unclean_closes five_failures = 5 \<and>
   Opened \<notin> set five_failures \<and>
   reconnectAttempts started_world = 0 \<and>
   fallback_entries (run printer five_failures started_world) = 0 \<and>
   intervals (run printer five_failures started_world) = [] \<and>
   timeouts (run printer five_failures started_world) = [3000, 6000, 9000, 12000, 15000] \<and>
   fired (run printer five_failures started_world) = 4 \<and>
   fallback_entries (run printer (five_failures @ [Timer_fired, Opened]) started_world) = 0 \<and>
   reconnectAttempts (run printer (five_failures @ [Timer_fired, Opened]) started_world) = 0 \<and>
   websocket (run printer (five_failures @ [Timer_fired, Opened]) started_world) = Some 5"
  by (simp add: five_failures_def unclean_closes_def started_world_eq example_defs
      onclose_def attemptReconnect_def connectWebSocket_def report_def log_def
      reconnect_delay_def fallback_entries_def noon_def onopen_def send_def Let_def)

subsection \<open>The delay of a reconnection\<close>

text \<open>
  Claim C6. The reconnection attempt number \<open>N\<close>, for \<open>N\<close> from 1 to 5, is the call of
  \<open>attemptReconnect\<close> with the counter at \<open>N - 1\<close>: it returns normally, sets the counter
  to \<open>N\<close> and schedules the reconnection after \<open>N * 3000\<close> ms. The delay does not
  decrease from an attempt \<open>M\<close> to a later attempt \<open>N\<close>.
\<close>

theorem reconnect_delay_linear:
  assumes "1 \<le> M" and "M \<le> N" and "N \<le> 5"
    and "maxReconnectAttempts w = 5" and "reconnectAttempts w = N - 1"
  shows "fst (attemptReconnect nts a w) = None \<and>
    reconnectAttempts (snd (attemptReconnect nts a w)) = N \<and>
    timeouts (snd (attemptReconnect nts a w)) = timeouts w @ [N * 3000] \<and>
    reconnect_delay N = N * 3000 \<and>
    reconnect_delay M \<le> reconnect_delay N"
proof -
  from assms have lt: "reconnectAttempts w < maxReconnectAttempts w"
    and suc: "Suc (reconnectAttempts w) = N" by simp_all
  show ?thesis
    using lt suc assms(2)
    by (simp add: attemptReconnect_def Let_def log_def reconnect_delay_def)
qed

text \<open>
  The theorem at the third attempt, compared with the second.
\<close>

theorem reconnect_delay_linear_witness:
  "(1::nat) \<le> 2 \<and> (2::nat) \<le> 3 \<and> (3::nat) \<le> 5 \<and>
   maxReconnectAttempts (example_world\<lparr>reconnectAttempts := 2\<rparr>) = 5 \<and>
   reconnectAttempts (example_world\<lparr>reconnectAttempts := 2\<rparr>) = 3 - 1 \<and>
   timeouts (snd (attemptReconnect printer noon (example_world\<lparr>reconnectAttempts := 2\<rparr>)))
     = [9000] \<and>
   reconnect_delay 2 \<le> reconnect_delay 3"
proof -
  have h1: "(1::nat) \<le> 2" by simp
  have h2: "(2::nat) \<le> 3" by simp
  have h3: "(3::nat) \<le> 5" by simp
  have h4: "maxReconnectAttempts (example_world\<lparr>reconnectAttempts := 2\<rparr>) = 5"
    by (simp add: example_defs)
  have h5: "reconnectAttempts (example_world\<lparr>reconnectAttempts := 2\<rparr>) = 3 - 1"
    by (simp add: example_defs)
  have t: "timeouts (example_world\<lparr>reconnectAttempts := 2\<rparr>) = []"
    by (simp add: example_defs)
  from reconnect_delay_linear [OF h1 h2 h3 h4 h5, of printer noon] h4 h5 t
  show ?thesis by simp
qed

subsection \<open>Fallback mode\<close>

text \<open>
  \<open>useFallback\<close> registers its interval unless the first rendering throws, and no
  handler ever removes an interval: there is no \<open>clearInterval\<close> in the class.
\<close>

lemma useFallback_intervals:
  "intervals (snd (useFallback nts a w)) =
     (if fst (useFallback nts a w) = None then intervals w @ [60000] else intervals w)"
proof -
  obtain r w1 where u: "updateFallbackStatus nts a (log Fallback_mode w) = (r, w1)"
    by (cases "updateFallbackStatus nts a (log Fallback_mode w)")
  have "intervals w1 = intervals (snd (updateFallbackStatus nts a (log Fallback_mode w)))"
    by (simp only: u snd_conv)
  then have w1: "intervals w1 = intervals w" by (simp add: updateFallbackStatus_frame)
  show ?thesis
    by (cases r) (simp_all add: useFallback_def u w1)
qed

lemma step_intervals: "\<exists>xs. intervals (step nts e w) = intervals w @ xs"
proof (cases e)
  case (Closed c a)
  then show ?thesis
    by (simp add: onclose_def attemptReconnect_def Let_def useFallback_intervals)
qed (simp_all add: onopen_def onmessage_frame onerror_def connectWebSocket_effect
      updateFallbackStatus_frame send_def log_def)

lemma run_intervals: "\<exists>xs. intervals (run nts es w) = intervals w @ xs"
proof (induction es arbitrary: w)
  case Nil
  then show ?case by simp
next
  case (Cons e es)
  from step_intervals obtain xs where "intervals (step nts e w) = intervals w @ xs" by blast
  moreover from Cons.IH obtain ys
    where "intervals (run nts es (step nts e w)) = intervals (step nts e w) @ ys" by blast
  ultimately show ?case by simp
qed

text \<open>
  Rendering a synthetic snapshot: it cannot throw unless the page has both indicator
  elements and neither the activity line nor a container for it, and it hides the line.
\<close>

lemma updateStatus_synthetic:
  assumes "statusDot (page w) = None \<or> statusText (page w) = None \<or> mountable (page w)"
  shows "fst (updateStatus nts (synthetic_snapshot s) w) = None"
  using assms
  by (auto simp: updateStatus_def synthetic_snapshot_def get_def activities_of_def Let_def
      updateActivity_def activityElement_def mountable_def split: option.splits)

lemma updateStatus_synthetic_view:
  assumes "statusDot (page w) \<noteq> None" and "statusText (page w) \<noteq> None"
    and "mountable (page w)"
  shows "activity_view (snd (updateStatus nts (synthetic_snapshot s) w)) =
    Some (old_markup w, ''none'')"
  using assms
  by (auto simp: updateStatus_def synthetic_snapshot_def get_def activities_of_def Let_def
      updateActivity_def activityElement_def mountable_def old_markup_def created_element_def
      split: option.splits)

lemma activity_view_fields [simp]:
  "activity_view (w\<lparr>intervals := i\<rparr>) = activity_view w"
  "activity_view (log l w) = activity_view w"
  "old_markup (log l w) = old_markup w"
  by (simp_all add: activity_view_def old_markup_def)

text \<open>
  Claim C7. Entering fallback mode renders one synthetic snapshot at once and then
  registers \<open>updateFallbackStatus\<close> with a period of 60000 ms. The interval stays
  registered through every later run of the client, and every tick of it renders a new
  synthetic snapshot. The snapshot handed to the renderer, at once and at every tick, is
  the object with exactly two properties: \<open>discord_status\<close>, one of the four status
  codes, chosen from the hour and the random draw of that moment, and \<open>activities\<close>, the
  empty array. So on a page with both indicator elements the activity line ends up
  hidden. The page is one on which rendering does not throw: an indicator element is
  missing, or the activity line is there or can be created.
\<close>

theorem fallback_renders_every_minute:
  assumes "statusDot (page w) = None \<or> statusText (page w) = None \<or> mountable (page w)"
  shows "useFallback nts a w =
      (None,
       (snd (updateStatus nts
               (JObj [(''discord_status'', JStr (fallback_status a)), (''activities'', JArr [])])
               (log (Fallback_status (fallback_status a)) (log Fallback_mode w))))
         \<lparr>intervals := intervals w @ [60000]\<rparr>) \<and>
    60000 \<in> set (intervals (run nts es (snd (useFallback nts a w)))) \<and>
    step nts (Interval_tick b) (run nts es (snd (useFallback nts a w))) =
      report (updateStatus nts
                (JObj [(''discord_status'', JStr (fallback_status b)), (''activities'', JArr [])])
                (log (Fallback_status (fallback_status b))
                   (run nts es (snd (useFallback nts a w))))) \<and>
    field (synthetic_snapshot s) ''activities'' = JArr [] \<and>
    field (synthetic_snapshot s) ''discord_status'' = JStr s \<and>
    fallback_status a \<in> set [''online'', ''idle'', ''dnd'', ''offline''] \<and>
    (statusDot (page w) \<noteq> None \<and> statusText (page w) \<noteq> None \<longrightarrow>
       activity_view (snd (useFallback nts a w)) = Some (old_markup w, ''none''))"
proof -
  let ?w0 = "log (Fallback_status (fallback_status a)) (log Fallback_mode w)"
  let ?r = "updateStatus nts (synthetic_snapshot (fallback_status a)) ?w0"
  have ok: "fst ?r = None"
    by (rule updateStatus_synthetic) (use assms in simp)
  then obtain w1 where r: "?r = (None, w1)" by (cases ?r) simp
  have "intervals w1 = intervals (snd ?r)" by (simp only: r snd_conv)
  then have iw1: "intervals w1 = intervals w" by (simp add: updateStatus_frame)
  have u: "useFallback nts a w = (None, (snd ?r)\<lparr>intervals := intervals w @ [60000]\<rparr>)"
    by (simp add: useFallback_def updateFallbackStatus_def Let_def r iw1)
  have i: "intervals (snd (useFallback nts a w)) = intervals w @ [60000]"
    by (simp add: u)
  obtain xs where xs: "intervals (run nts es (snd (useFallback nts a w))) =
      intervals (snd (useFallback nts a w)) @ xs"
    using run_intervals by blast
  have reg: "60000 \<in> set (intervals (run nts es (snd (useFallback nts a w))))"
    by (simp add: xs i)
  then have ne: "intervals (run nts es (snd (useFallback nts a w))) \<noteq> []" by auto
  have tick: "step nts (Interval_tick b) (run nts es (snd (useFallback nts a w))) =
      report (updateStatus nts (synthetic_snapshot (fallback_status b))
                (log (Fallback_status (fallback_status b))
                   (run nts es (snd (useFallback nts a w)))))"
    using ne by (simp add: updateFallbackStatus_def Let_def)
  have carried: "field (synthetic_snapshot s) ''activities'' = JArr []"
    "field (synthetic_snapshot s) ''discord_status'' = JStr s"
    by (simp_all add: synthetic_snapshot_def)
  have code: "fallback_status a \<in> set [''online'', ''idle'', ''dnd'', ''offline'']"
    by (simp add: fallback_status_def)
  have view: "statusDot (page w) \<noteq> None \<and> statusText (page w) \<noteq> None \<longrightarrow>
       activity_view (snd (useFallback nts a w)) = Some (old_markup w, ''none'')"
  proof
    assume p: "statusDot (page w) \<noteq> None \<and> statusText (page w) \<noteq> None"
    with assms have m: "mountable (page w)" by simp
    have "activity_view (snd ?r) = Some (old_markup ?w0, ''none'')"
      by (rule updateStatus_synthetic_view) (use p m in simp_all)
    then show "activity_view (snd (useFallback nts a w)) = Some (old_markup w, ''none'')"
      by (simp add: u)
  qed
  have lit: "synthetic_snapshot c =
      JObj [(''discord_status'', JStr c), (''activities'', JArr [])]" for c
    by (simp add: synthetic_snapshot_def)
  from u have u': "useFallback nts a w =
      (None,
       (snd (updateStatus nts
               (JObj [(''discord_status'', JStr (fallback_status a)), (''activities'', JArr [])])
               ?w0))\<lparr>intervals := intervals w @ [60000]\<rparr>)"
    by (simp only: lit)
  from tick have tick': "step nts (Interval_tick b) (run nts es (snd (useFallback nts a w))) =
      report (updateStatus nts
                (JObj [(''discord_status'', JStr (fallback_status b)), (''activities'', JArr [])])
                (log (Fallback_status (fallback_status b))
                   (run nts es (snd (useFallback nts a w)))))"
    by (simp only: lit)
  from u' reg tick' carried code view show ?thesis by blast
qed

text \<open>
  The theorem on the example page at noon, with two ticks after the entry. The console
  shows the snapshot the renderer was given.
\<close>

theorem fallback_renders_every_minute_witness:
  "(statusDot (page example_world) = None \<or> statusText (page example_world) = None \<or>
      mountable (page example_world)) \<and>
   (statusDot (page example_world) \<noteq> None \<and> statusText (page example_world) \<noteq> None) \<and>
   fst (useFallback printer noon example_world) = None \<and>
   intervals (snd (useFallback printer noon example_world)) = [60000] \<and>
   console (snd (useFallback printer noon example_world)) =
     [Fallback_mode, Fallback_status ''online'',
      Updating_status (JObj [(''discord_status'', JStr ''online''), (''activities'', JArr [])]),
      Discord_status (JStr ''online'') (JArr [])] \<and>
   60000 \<in> set (intervals (run printer [Interval_tick noon, Interval_tick noon]
                    (snd (useFallback printer noon example_world)))) \<and>
   activity_view (snd (useFallback printer noon example_world)) = Some (Static '''', ''none'')"
proof -
  have h: "statusDot (page example_world) = None \<or> statusText (page example_world) = None \<or>
      mountable (page example_world)"
    by (simp add: mountable_def example_defs)
  have p: "statusDot (page example_world) \<noteq> None \<and> statusText (page example_world) \<noteq> None"
    by (simp add: example_defs)
  have o: "old_markup example_world = Static ''''" by (simp add: old_markup_def example_defs)
  have i: "intervals example_world = []" by (simp add: example_defs)
  have st: "fallback_status noon = ''online''" by (simp add: fallback_status_def noon_def)
  have c: "console (snd (updateStatus printer
               (JObj [(''discord_status'', JStr ''online''), (''activities'', JArr [])])
               (log (Fallback_status ''online'') (log Fallback_mode example_world)))) =
     [Fallback_mode, Fallback_status ''online'',
      Updating_status (JObj [(''discord_status'', JStr ''online''), (''activities'', JArr [])]),
      Discord_status (JStr ''online'') (JArr [])]"
    by (simp add: updateStatus_def example_defs get_def log_def
      activities_of_def config_for_def statusConfig_at_def statusConfig_def
      Object_prototype_names_def updateActivity_def activityElement_def set_activity_def
      created_element_def show_activity_def Let_def)
  from fallback_renders_every_minute
         [OF h, of printer noon "[Interval_tick noon, Interval_tick noon]" noon "''online''"]
  have "useFallback printer noon example_world =
      (None,
       (snd (updateStatus printer
               (JObj [(''discord_status'', JStr (fallback_status noon)), (''activities'', JArr [])])
               (log (Fallback_status (fallback_status noon)) (log Fallback_mode example_world))))
         \<lparr>intervals := intervals example_world @ [60000]\<rparr>)"
    and "60000 \<in> set (intervals (run printer [Interval_tick noon, Interval_tick noon]
                    (snd (useFallback printer noon example_world))))"
    and "statusDot (page example_world) \<noteq> None \<and> statusText (page example_world) \<noteq> None \<longrightarrow>
       activity_view (snd (useFallback printer noon example_world)) =
         Some (old_markup example_world, ''none'')"
    by blast+
  with h p o i st c show ?thesis by simp
qed

subsection \<open>The first request\<close>

text \<open>
  The request changes the client only by rendering the snapshot of a successful
  response and by what it logs.
\<close>

lemma fetchInitialStatus_try_world:
  "snd (fetchInitialStatus_try nts outcome w) =
     (case outcome of
        Response ok body \<Rightarrow>
          (case body of
             Completes (Parsed data) \<Rightarrow>
               (if ok \<and> \<not> nullish data \<and> truthy (field data ''success'')
                then snd (updateStatus nts (field data ''data'') w) else w)
           | _ \<Rightarrow> w)
      | _ \<Rightarrow> w)"
  by (auto simp: fetchInitialStatus_try_def get_def
      split: fetch_outcome.splits body.splits payload.splits prod.splits option.splits)

lemma fetchInitialStatus_frame:
  "websocket (snd (fetchInitialStatus nts outcome w)) = websocket w"
  "sockets (snd (fetchInitialStatus nts outcome w)) = sockets w"
  "ws_available (snd (fetchInitialStatus nts outcome w)) = ws_available w"
  "uncaught (snd (fetchInitialStatus nts outcome w)) = uncaught w"
  "intervals (snd (fetchInitialStatus nts outcome w)) = intervals w"
  "timeouts (snd (fetchInitialStatus nts outcome w)) = timeouts w"
proof -
  obtain r w1 where t: "fetchInitialStatus_try nts outcome w = (r, w1)"
    by (cases "fetchInitialStatus_try nts outcome w")
  have "w1 = snd (fetchInitialStatus_try nts outcome w)" by (simp only: t snd_conv)
  then have w1: "websocket w1 = websocket w" "sockets w1 = sockets w"
    "ws_available w1 = ws_available w" "uncaught w1 = uncaught w"
    "intervals w1 = intervals w" "timeouts w1 = timeouts w"
    by (simp_all add: fetchInitialStatus_try_world updateStatus_frame
        split: fetch_outcome.splits body.splits payload.splits)
  have f: "\<exists>ls. snd (fetchInitialStatus nts outcome w) = w1\<lparr>console := console w1 @ ls\<rparr>"
  proof (cases r)
    case Pending
    then have "snd (fetchInitialStatus nts outcome w) = w1\<lparr>console := console w1 @ []\<rparr>"
      by (simp add: fetchInitialStatus_def t)
    then show ?thesis by blast
  next
    case (Settled x)
    show ?thesis
    proof (cases x)
      case (Inl e)
      with Settled have "snd (fetchInitialStatus nts outcome w) =
          w1\<lparr>console := console w1 @
            [if e = AbortError then Request_timed_out else Status_fetch_error e]\<rparr>"
        by (simp add: fetchInitialStatus_def t log_def)
      then show ?thesis by blast
    next
      case (Inr b)
      with Settled have "snd (fetchInitialStatus nts outcome w) =
          w1\<lparr>console := console w1 @ []\<rparr>"
        by (simp add: fetchInitialStatus_def t)
      then show ?thesis by blast
    qed
  qed
  then obtain ls where ls: "snd (fetchInitialStatus nts outcome w) =
      w1\<lparr>console := console w1 @ ls\<rparr>" by blast
  show "websocket (snd (fetchInitialStatus nts outcome w)) = websocket w"
    "sockets (snd (fetchInitialStatus nts outcome w)) = sockets w"
    "ws_available (snd (fetchInitialStatus nts outcome w)) = ws_available w"
    "uncaught (snd (fetchInitialStatus nts outcome w)) = uncaught w"
    "intervals (snd (fetchInitialStatus nts outcome w)) = intervals w"
    "timeouts (snd (fetchInitialStatus nts outcome w)) = timeouts w"
    by (simp_all add: ls w1)
qed

text \<open>
  Whenever the request ends, that is, unless the body of a response with a success
  status never completes, \<open>fetchInitialStatus\<close> settles, and \<open>init\<close> opens the socket
  on a page where sockets can be constructed.
\<close>

lemma fetchInitialStatus_settles:
  assumes "outcome \<noteq> Response True Never_completes"
  shows "\<exists>r. fst (fetchInitialStatus nts outcome w) = Settled r"
  using assms
  by (auto simp: fetchInitialStatus_def fetchInitialStatus_try_def
      split: fetch_outcome.splits body.splits payload.splits sum.splits prod.splits
        option.splits)

lemma init_after_ended_request:
  assumes "ws_available w" and "outcome \<noteq> Response True Never_completes"
  shows "init nts a outcome w =
      (Settled None, (snd (fetchInitialStatus nts outcome w))
               \<lparr>websocket := Some (sockets w), sockets := Suc (sockets w)\<rparr>)"
proof -
  obtain r w1 where f: "fetchInitialStatus nts outcome w = (r, w1)"
    by (cases "fetchInitialStatus nts outcome w")
  from fetchInitialStatus_settles [OF assms(2), of nts w] f obtain b where r: "r = Settled b"
    by auto
  have "w1 = snd (fetchInitialStatus nts outcome w)" by (simp only: f snd_conv)
  then have "ws_available w1" and "sockets w1 = sockets w"
    using assms(1) by (simp_all add: fetchInitialStatus_frame)
  then show ?thesis by (simp add: init_def connectWebSocket_def f r)
qed

lemma init_logs_errors:
  assumes "ws_available w"
  shows "console (snd (init nts a Network_failure w)) =
      console w @ [Status_fetch_error TypeError]"
    and "console (snd (init nts a Timed_out w)) = console w @ [Request_timed_out]"
    and "console (snd (init nts a (Response True (Completes Unparsable)) w)) =
      console w @ [Status_fetch_error SyntaxError]"
    and "console (snd (init nts a (Response False body) w)) = console w"
  using assms
  by (simp_all add: init_def connectWebSocket_def fetchInitialStatus_def
      fetchInitialStatus_try_def log_def)

text \<open>
  Claim C8 at a response whose status is a success and whose body never completes. The
  abort timer has been cleared when the headers arrived, so nothing ends the read of the
  body: \<open>fetchInitialStatus\<close> stays at \<open>await response.json()\<close>, \<open>init\<close> stays at its own
  \<open>await\<close>, nothing is logged, and \<open>connectWebSocket\<close> is never called: the client has
  no socket, on the example page as on every other.
\<close>

theorem stalled_body_suspends_init:
  "init nts a (Response True Never_completes) w = (Pending, w) \<and>
   init printer noon (Response True Never_completes) example_world = (Pending, example_world) \<and>
   websocket example_world = None \<and> sockets example_world = 0 \<and>
   ws_available example_world"
  by (simp add: init_def fetchInitialStatus_def fetchInitialStatus_try_def example_defs)

subsection \<open>Messages\<close>

text \<open>
  A message that decodes to a value other than \<open>null\<close> and is neither a heartbeat probe
  nor a data message is logged and otherwise ignored; and no message without a snapshot
  changes the page.
\<close>

lemma unexpected_message_ignored:
  assumes "\<not> nullish data" and "field data ''op'' \<noteq> JNum 1"
    and "field data ''t'' \<noteq> JStr ''INIT_STATE''"
    and "field data ''t'' \<noteq> JStr ''PRESENCE_UPDATE''"
  shows "onmessage nts (Parsed data) w = (None, log (Ws_message data) w)"
  using assms by (simp add: onmessage_def get_def)

lemma onmessage_without_snapshot_keeps_page:
  assumes "m = Unparsable \<or> (\<exists>data. m = Parsed data \<and>
      (nullish data \<or> field data ''op'' = JNum 1 \<or>
       (field data ''t'' \<noteq> JStr ''INIT_STATE'' \<and>
        field data ''t'' \<noteq> JStr ''PRESENCE_UPDATE'')))"
  shows "page (snd (onmessage nts m w)) = page w"
  using assms by (auto simp: onmessage_def get_def Let_def)

text \<open>
  Claim C4 at two malformed messages. On text that is not JSON the handler throws the
  SyntaxError of \<open>JSON.parse\<close>; on the text \<open>null\<close> it throws a TypeError at the read of
  \<open>data.op\<close>. Neither is caught: the runtime reports it as an uncaught exception.
\<close>

theorem malformed_message_throws:
  "onmessage printer Unparsable started_world = (Some SyntaxError, started_world) \<and>
   uncaught (step printer (Message Unparsable) started_world) = [SyntaxError] \<and>
   onmessage printer (Parsed JNull) started_world =
     (Some TypeError, log (Ws_message JNull) started_world) \<and>
   uncaught (step printer (Message (Parsed JNull)) started_world) = [TypeError]"
  by (simp add: onmessage_def get_def report_def started_world_eq example_defs log_def)

end
